theory Spec2Isabelle
  imports Main "HOL-Library.AList"
begin

section \<open>Errors and return values\<close>

text \<open>
  A Go \<^verbatim>\<open>error\<close> is a value; \<^verbatim>\<open>nil\<close> is \<open>None\<close> of \<open>error option\<close>.
  \<^verbatim>\<open>fmt.Errorf\<close> and \<^verbatim>\<open>errors.New\<close> build an \<open>Error\<close> from the rendered message,
  \<^verbatim>\<open>utilerrors.NewAggregate\<close> returns nil for an empty list and the aggregate of the
  list otherwise. A run of a command ends in a returned error value (\<open>Return\<close>) or in a Go
  run-time panic (\<open>Panic\<close>): writing into a nil map, indexing an empty slice, a failed type
  assertion, a nil pointer or a nil writer.
\<close>

datatype error = Error string | Aggregate "error list"

definition NewAggregate :: "error list \<Rightarrow> error option" where
  "NewAggregate errlist = (if errlist = [] then None else Some (Aggregate errlist))"

datatype retval = Return "error option" | Panic string

section \<open>The API objects the commands read and write\<close>

text \<open>
  \<^verbatim>\<open>corev1.ResourceList\<close> is a Go map from resource names to quantities. It is an
  association list with the nil map apart (\<open>None\<close>): reading a nil map finds nothing and
  its length is 0, writing into it panics. A quantity is kept in its textual form.
\<close>

type_synonym Quantity = string
type_synonym ResourceList = "(string \<times> Quantity) list option"

record ResourceRequirements =
  Limits :: ResourceList
  Requests :: ResourceList

definition len_rl :: "ResourceList \<Rightarrow> nat" where
  "len_rl m = (case m of None \<Rightarrow> 0 | Some al \<Rightarrow> length al)"

definition entries :: "ResourceList \<Rightarrow> (string \<times> Quantity) list" where
  "entries m = (case m of None \<Rightarrow> [] | Some al \<Rightarrow> al)"

definition lookup_rl :: "ResourceList \<Rightarrow> string \<Rightarrow> Quantity option" where
  "lookup_rl m k = map_of (entries m) k"

record Container =
  Name :: string
  Image :: string
  Resources :: ResourceRequirements

record PodSpec =
  Containers :: "Container list"
  NodeName :: string
  ServiceAccountName :: string

record ObjectMeta =
  ObjName :: string
  ObjNamespace :: string
  Labels :: "(string \<times> string) list"
  Annotations :: "(string \<times> string) list"

record PodTemplateSpec =
  TemplateMeta :: ObjectMeta
  TemplateSpec :: PodSpec

text \<open>
  \<^verbatim>\<open>appsv1alpha1.CloneSet\<close> and \<^verbatim>\<open>appsv1beta1.StatefulSet\<close> are two Go structs of the
  kruise API. The command reaches the same path in both,
  \<^verbatim>\<open>Spec.Template.Spec.Containers\<close>; one record holds the fields of either, and the
  constructor of \<open>runtime_object\<close> says which kind the object is.
\<close>

record WorkloadSpec =
  Replicas :: "int option"
  Template :: PodTemplateSpec

record WorkloadStatus =
  StatusReplicas :: int
  ReadyReplicas :: int
  UpdatedReplicas :: int

record Workload =
  Meta :: ObjectMeta
  Spec :: WorkloadSpec
  Status :: WorkloadStatus

text \<open>\<^verbatim>\<open>corev1.PodPhase\<close> is a string type.\<close>

type_synonym PodPhase = string

definition PodSucceeded :: PodPhase where
  "PodSucceeded = ''Succeeded''"

definition PodFailed :: PodPhase where
  "PodFailed = ''Failed''"

record Pod =
  PodMeta :: ObjectMeta
  PodSpecOf :: PodSpec
  Phase :: PodPhase

text \<open>
  The kruise rollouts API: \<^verbatim>\<open>CanaryStepState\<close> is a string type,
  \<^verbatim>\<open>Status.CanaryStatus\<close> a pointer that may be nil.
\<close>

type_synonym CanaryStepState = string



record CanaryStatus =
  CurrentStepIndex :: int
  CurrentStepState :: CanaryStepState

record RolloutStatus =
  RolloutPhase :: string
  CanaryStatusOf :: "CanaryStatus option"

record Rollout =
  RolloutMeta :: ObjectMeta
  RolloutStatusOf :: RolloutStatus

text \<open>
  A \<^verbatim>\<open>runtime.Object\<close> is an interface value: an object of one of the kinds the commands
  switch on, an object of another kind (named by its kind), or the nil interface. The
  interface may also hold a \<^verbatim>\<open>*Rollout\<close> that is the nil pointer, \<open>RolloutObj None\<close>:
  the type switch of \<^verbatim>\<open>defaultObjectApprover\<close> takes it for a Rollout. The objects of the
  other kinds are the decoded structs that the resource builder and the server hand over.
\<close>

datatype runtime_object =
    CloneSet Workload
  | StatefulSet Workload
  | RolloutObj "Rollout option"
  | PodObj Pod
  | OtherObject string
  | NilObject

section \<open>polymorphichelpers: defaultObjectApprover\<close>

text \<open>
  \<^verbatim>\<open>runtime.Encode(scheme.Codecs.LegacyCodec(...), obj)\<close> belongs to the client library:
  it is the parameter \<open>Encode\<close>, returning the Go pair of bytes and error. The function
  hands that pair back unchanged. The object is mutated in place, so the model returns it
  as well. Reading \<^verbatim>\<open>obj.Status\<close> through the nil pointer panics (\<open>Inl\<close>, with the
  message of the Go run time).
\<close>

type_synonym bytes = string






section \<open>set resources: options, environment and events\<close>

datatype DryRunStrategy = DryRunNone | DryRunClient | DryRunServer

text \<open>
  A \<^verbatim>\<open>resource.Info\<close>: the object as the builder resolved it, its namespace and name, and
  the REST mapping with its client (opaque: a name).
\<close>

record Info =
  InfoObject :: runtime_object
  InfoNamespace :: string
  InfoName :: string
  InfoMapping :: string

text \<open>
  The fields of \<^verbatim>\<open>SetResourcesOptions\<close> that \<^verbatim>\<open>Validate\<close> and \<^verbatim>\<open>Run\<close> read.
  \<open>LimitsFlag\<close> and \<open>RequestsFlag\<close> are the strings \<^verbatim>\<open>o.Limits\<close> and
  \<^verbatim>\<open>o.Requests\<close> (the names \<open>Limits\<close> and \<open>Requests\<close> are the fields of
  \<open>ResourceRequirements\<close>), \<open>DryRun\<close> is \<^verbatim>\<open>o.DryRunStrategy\<close> and \<open>Requirements\<close> is
  \<^verbatim>\<open>o.ResourceRequirements\<close>. The function-valued fields and the clients are in the
  environment below.
\<close>

record SetResourcesOptions =
  Infos :: "Info list"
  Selector :: string
  ContainerSelector :: string
  All :: bool
  Local :: bool
  DryRun :: DryRunStrategy
  LimitsFlag :: string
  RequestsFlag :: string
  Requirements :: ResourceRequirements

text \<open>
  What the command does to the world, in order: a read of the server
  (\<^verbatim>\<open>Helper.Get\<close>), a call of the recorder, an update of the server
  (\<^verbatim>\<open>Helper.Replace\<close>, or \<^verbatim>\<open>Helper.Patch\<close> with its dry-run flag), a print, each with
  what it was given.
\<close>

datatype event =
    EvGet Info
  | EvRecord runtime_object
  | EvReplace Info runtime_object
  | EvPatch bool Info bytes
  | EvPrint runtime_object

text \<open>
  A \<^verbatim>\<open>Patch\<close> of \<^verbatim>\<open>CalculatePatches\<close>: its \<^verbatim>\<open>Info\<close>, its \<^verbatim>\<open>Patch\<close> bytes and its
  \<^verbatim>\<open>Err\<close>.
\<close>

record Patch =
  PatchInfo :: Info
  PatchBytes :: bytes
  PatchErr :: "error option"

text \<open>
  The two closures of the default branch change variables of \<^verbatim>\<open>Run\<close>; as functions they
  return the changes. The function on a pod spec returns the spec as it leaves it, whether
  it has set \<^verbatim>\<open>transformed\<close>, and the errors it has appended to \<^verbatim>\<open>allErrs\<close>. The
  function on an object returns the object as it leaves it, the errors appended, the
  events, and the Go pair of bytes and error. Either may panic (\<open>Inl\<close>).
\<close>

type_synonym podSpecFn = "PodSpec \<Rightarrow> string + PodSpec \<times> bool \<times> error list"

type_synonym patchFn =
  "runtime_object \<Rightarrow> string + runtime_object \<times> error list \<times> event list \<times> bytes option \<times> error option"

text \<open>
  The library calls, and the helpers of the repository that are not under src/, are
  parameters. Each returns what the Go call returns; a call that receives the object
  through a pointer and may change it in place returns the object as it leaves it.
  \<^item> \<open>HandleResourceRequirementsV1 limits requests\<close>: the parser of the two flag
    strings, with the Go pair of value and error;
  \<^item> \<open>selectString name spec\<close>: whether the container selector \<open>spec\<close> matches the
    container name;
  \<^item> \<open>helperGet\<close>: \<^verbatim>\<open>resource.NewHelper(...).Get\<close>;
  \<^item> \<open>accessorName\<close>: the error of \<^verbatim>\<open>meta.NewAccessor().Name\<close>;
  \<^item> \<open>recorderRecord\<close>: \<^verbatim>\<open>o.Recorder.Record\<close>;
  \<^item> \<open>helperReplace\<close>: \<^verbatim>\<open>resource.NewHelper(...).Replace\<close>;
  \<^item> \<open>PrintObj\<close>: the error of \<^verbatim>\<open>o.PrintObj\<close>;
  \<^item> \<open>aggregateString\<close>: the \<^verbatim>\<open>Error()\<close> string of an aggregate of errors;
  \<^item> \<open>UpdatePodSpecForObject obj fn\<close>: \<^verbatim>\<open>o.UpdatePodSpecForObject\<close>, which may call
    \<open>fn\<close> on the pod spec of the object: the object as it leaves it, whether
    \<^verbatim>\<open>transformed\<close> was set, the errors appended, and its error;
  \<^item> \<open>runtimeEncode\<close>: \<^verbatim>\<open>runtime.Encode(scheme.DefaultJSONEncoder(), obj)\<close>;
  \<^item> \<open>CalculatePatches infos fn\<close>: the patches, with the errors that the calls of
    \<open>fn\<close> have appended and their events;
  \<^item> \<open>ObjectName\<close>: \<^verbatim>\<open>info.ObjectName()\<close>;
  \<^item> \<open>HasSupport\<close>: \<^verbatim>\<open>o.DryRunVerifier.HasSupport\<close> on the kind of the mapping;
  \<^item> \<open>helperPatch dryRun info patch\<close>: \<^verbatim>\<open>resource.NewHelper(...).DryRun(dryRun).Patch\<close>
    with the strategic merge patch.
\<close>

record SetEnv =
  HandleResourceRequirementsV1 :: "string \<Rightarrow> string \<Rightarrow> ResourceRequirements \<times> error option"
  selectString :: "string \<Rightarrow> string \<Rightarrow> bool"
  helperGet :: "Info \<Rightarrow> runtime_object \<times> error option"
  accessorName :: "runtime_object \<Rightarrow> error option"
  recorderRecord :: "runtime_object \<Rightarrow> runtime_object \<times> error option"
  helperReplace :: "Info \<Rightarrow> runtime_object \<Rightarrow> runtime_object \<times> error option"
  PrintObj :: "runtime_object \<Rightarrow> error option"
  aggregateString :: "error list \<Rightarrow> string"
  UpdatePodSpecForObject ::
    "runtime_object \<Rightarrow> podSpecFn \<Rightarrow> string + runtime_object \<times> bool \<times> error list \<times> error option"
  runtimeEncode :: "runtime_object \<Rightarrow> bytes option \<times> error option"
  CalculatePatches :: "Info list \<Rightarrow> patchFn \<Rightarrow> string + Patch list \<times> error list \<times> event list"
  ObjectName :: "Info \<Rightarrow> string"
  HasSupport :: "Info \<Rightarrow> error option"
  helperPatch :: "bool \<Rightarrow> Info \<Rightarrow> bytes \<Rightarrow> runtime_object \<times> error option"

text \<open>\<^verbatim>\<open>err.Error()\<close>, also what \<^verbatim>\<open>%v\<close> prints of an error.\<close>

definition errorString :: "SetEnv \<Rightarrow> error \<Rightarrow> string" where
  "errorString env err = (case err of Error msg \<Rightarrow> msg | Aggregate errlist \<Rightarrow> aggregateString env errlist)"

definition newline :: string where
  "newline = [CHR 0x0A]"

section \<open>set resources: Validate\<close>

definition SetResourcesOptions_Validate ::
  "SetEnv \<Rightarrow> SetResourcesOptions \<Rightarrow> error option \<times> SetResourcesOptions" where
  "SetResourcesOptions_Validate env opts =
     (if Local opts \<and> DryRun opts = DryRunServer then
        (Some (Error ''cannot specify --local and --dry-run=server - did you mean --dry-run=client?''),
         opts)
      else if All opts \<and> length (Selector opts) > 0 then
        (Some (Error ''cannot set --all and --selector at the same time''), opts)
      else if length (LimitsFlag opts) = 0 \<and> length (RequestsFlag opts) = 0 then
        (Some (Error
           ''you must specify an update to requests or limits (in the form of --requests/--limits)''),
         opts)
      else
        (case HandleResourceRequirementsV1 env (LimitsFlag opts) (RequestsFlag opts) of
           (rr, err) \<Rightarrow> (err, opts\<lparr>Requirements := rr\<rparr>)))"

section \<open>set resources: the update of the selected containers\<close>

text \<open>
  \<^verbatim>\<open>for key, value := range src { dst[key] = value }\<close>. Go ranges over a map in no
  fixed order; the keys of a map are distinct, so every order writes the same map.
  Writing into the nil map panics.
\<close>

fun assignAll :: "ResourceList \<Rightarrow> (string \<times> Quantity) list \<Rightarrow> string + ResourceList" where
  "assignAll m [] = Inr m"
| "assignAll m ((key, value) # kvs) =
     (case m of
        None \<Rightarrow> Inl ''assignment to entry in nil map''
      | Some al \<Rightarrow> assignAll (Some (AList.update key value al)) kvs)"

text \<open>
  The body of the loop over the selected containers (lines 268 to 280, and again 330 to
  342 and 380 to 392).
\<close>

definition setContainerResources :: "SetResourcesOptions \<Rightarrow> Container \<Rightarrow> string + Container" where
  "setContainerResources opts c =
     (let lim = (if length (LimitsFlag opts) \<noteq> 0 \<and> len_rl (Limits (Resources c)) = 0
                 then Some [] else Limits (Resources c))
      in case assignAll lim (entries (Limits (Requirements opts))) of
           Inl msg \<Rightarrow> Inl msg
         | Inr lim' \<Rightarrow>
             (let req = (if length (RequestsFlag opts) \<noteq> 0 \<and> len_rl (Requests (Resources c)) = 0
                         then Some [] else Requests (Resources c))
              in case assignAll req (entries (Requests (Requirements opts))) of
                   Inl msg \<Rightarrow> Inl msg
                 | Inr req' \<Rightarrow>
                     Inr (c\<lparr>Resources := (Resources c)\<lparr>Limits := lim', Requests := req'\<rparr>\<rparr>)))"

text \<open>
  Modelled from the spec: \<^verbatim>\<open>selectContainers\<close> (package set) is not under src/. \<^verbatim>\<open>Run\<close>
  takes its first result as the containers the selector matches and updates them in place,
  so they are pointers into the slice it was given: here the indices of the matching
  containers, in the order of the slice; the second result is the indices of the others.
\<close>

definition selectContainers ::
  "(string \<Rightarrow> string \<Rightarrow> bool) \<Rightarrow> Container list \<Rightarrow> string \<Rightarrow> nat list \<times> nat list" where
  "selectContainers sel cs spec =
     (filter (\<lambda>i. sel (Name (cs ! i)) spec) [0..<length cs],
      filter (\<lambda>i. \<not> sel (Name (cs ! i)) spec) [0..<length cs])"

text \<open>
  \<^verbatim>\<open>for i := range containers { ...; transformed = true }\<close>: the slice of the pod
  template is the store, a selected container is the index it is at.
\<close>

fun updateContainers ::
  "SetResourcesOptions \<Rightarrow> nat list \<Rightarrow> Container list \<times> bool \<Rightarrow> string + Container list \<times> bool" where
  "updateContainers opts [] (cs, transformed) = Inr (cs, transformed)"
| "updateContainers opts (p # ps) (cs, transformed) =
     (case setContainerResources opts (cs ! p) of
        Inl msg \<Rightarrow> Inl msg
      | Inr c \<Rightarrow> updateContainers opts ps (cs[p := c], True))"

definition errNoContainer :: "string \<Rightarrow> error" where
  "errNoContainer spec = Error (''error: unable to find container named '' @ spec)"

text \<open>
  Lines 266 to 285, and again 328 to 347 and 378 to 397: the containers after the update,
  whether a container was transformed, and the errors appended to \<^verbatim>\<open>allErrs\<close>.
\<close>

definition updateSelected ::
  "SetEnv \<Rightarrow> SetResourcesOptions \<Rightarrow> Container list \<Rightarrow> string + Container list \<times> bool \<times> error list" where
  "updateSelected env opts cs =
     (let containers = fst (selectContainers (selectString env) cs (ContainerSelector opts))
      in if length containers \<noteq> 0 then
           (case updateContainers opts containers (cs, False) of
              Inl msg \<Rightarrow> Inl msg
            | Inr (cs', transformed) \<Rightarrow> Inr (cs', transformed, []))
         else Inr (cs, False, [errNoContainer (ContainerSelector opts)]))"

section \<open>set resources: Run\<close>

definition containersOf :: "Workload \<Rightarrow> Container list" where
  "containersOf res = Containers (TemplateSpec (Template (Spec res)))"

definition withContainers :: "Workload \<Rightarrow> Container list \<Rightarrow> Workload" where
  "withContainers res cs =
     res\<lparr>Spec := (Spec res)\<lparr>Template := (Template (Spec res))
       \<lparr>TemplateSpec := (TemplateSpec (Template (Spec res)))\<lparr>Containers := cs\<rparr>\<rparr>\<rparr>\<rparr>"

text \<open>
  The two kinds of the first two branches: the constructor, and the type assertion
  \<^verbatim>\<open>obj.(*appsv1alpha1.CloneSet)\<close> or \<^verbatim>\<open>obj.(*appsv1beta1.StatefulSet)\<close>, which panics on
  an object of another type.
\<close>

datatype kind = KCloneSet | KStatefulSet

fun wrap :: "kind \<Rightarrow> Workload \<Rightarrow> runtime_object" where
  "wrap KCloneSet res = CloneSet res"
| "wrap KStatefulSet res = StatefulSet res"

fun assertType :: "kind \<Rightarrow> runtime_object \<Rightarrow> Workload option" where
  "assertType KCloneSet (CloneSet res) = Some res"
| "assertType KStatefulSet (StatefulSet res) = Some res"
| "assertType k obj = None"

text \<open>
  The branch of a CloneSet (lines 248 to 308) and of a StatefulSet (lines 310 to 370): the
  same statements on the two types. \<open>info\<close> is \<^verbatim>\<open>o.Infos[0]\<close>. The error of the recorder
  is logged only.
\<close>

definition runWorkload ::
  "SetEnv \<Rightarrow> SetResourcesOptions \<Rightarrow> kind \<Rightarrow> Info \<Rightarrow> retval \<times> event list" where
  "runWorkload env opts k info =
     (case helperGet env info of
        (obj, Some err) \<Rightarrow> (Return (Some err), [EvGet info])
      | (obj, None) \<Rightarrow>
          (case assertType k obj of
             None \<Rightarrow> (Panic ''interface conversion'', [EvGet info])
           | Some res \<Rightarrow>
               (case accessorName env (wrap k res) of
                  Some err \<Rightarrow> (Return (Some err), [EvGet info])
                | None \<Rightarrow>
                    (case updateSelected env opts (containersOf res) of
                       Inl msg \<Rightarrow> (Panic msg, [EvGet info])
                     | Inr (cs', transformed, allErrs) \<Rightarrow>
                         if \<not> transformed then (Return None, [EvGet info])
                         else
                           (let res1 = wrap k (withContainers res cs');
                                res2 = fst (recorderRecord env res1);
                                evs = [EvGet info, EvRecord res1]
                            in if \<not> Local opts then
                                 (case helperReplace env info res2 of
                                    (res3, Some err) \<Rightarrow>
                                      (Return (Some err), evs @ [EvReplace info res2])
                                  | (res3, None) \<Rightarrow>
                                      (case PrintObj env res3 of
                                         Some err \<Rightarrow>
                                           (Return (Some (Error (errorString env err))),
                                            evs @ [EvReplace info res2, EvPrint res3])
                                       | None \<Rightarrow>
                                           (Return (NewAggregate allErrs),
                                            evs @ [EvReplace info res2, EvPrint res3])))
                               else
                                 (case PrintObj env res2 of
                                    Some err \<Rightarrow>
                                      (Return (Some (Error (errorString env err))), evs @ [EvPrint res2])
                                  | None \<Rightarrow>
                                      (Return (NewAggregate allErrs), evs @ [EvPrint res2])))))))"

text \<open>
  The default branch. Lines 376 to 399, the function on the pod spec that is handed to
  \<^verbatim>\<open>UpdatePodSpecForObject\<close>; it returns nil.
\<close>

definition podSpecMutator :: "SetEnv \<Rightarrow> SetResourcesOptions \<Rightarrow> podSpecFn" where
  "podSpecMutator env opts spec =
     (case updateSelected env opts (Containers spec) of
        Inl msg \<Rightarrow> Inl msg
      | Inr (cs', transformed, errs) \<Rightarrow> Inr (spec\<lparr>Containers := cs'\<rparr>, transformed, errs))"

text \<open>Lines 374 to 412, the function on an object that is handed to \<^verbatim>\<open>CalculatePatches\<close>.\<close>

definition mutateObject :: "SetEnv \<Rightarrow> SetResourcesOptions \<Rightarrow> patchFn" where
  "mutateObject env opts obj =
     (case UpdatePodSpecForObject env obj (podSpecMutator env opts) of
        Inl msg \<Rightarrow> Inl msg
      | Inr (obj1, transformed, errs, Some err) \<Rightarrow> Inr (obj1, errs, [], None, Some err)
      | Inr (obj1, transformed, errs, None) \<Rightarrow>
          if \<not> transformed then Inr (obj1, errs, [], None, None)
          else
            (let obj2 = fst (recorderRecord env obj1)
             in case runtimeEncode env obj2 of
                  (data, err) \<Rightarrow> Inr (obj2, errs, [EvRecord obj1], data, err)))"

definition errPatchFailed :: "SetEnv \<Rightarrow> error \<Rightarrow> error" where
  "errPatchFailed env err =
     Error (''failed to patch resources update to pod template '' @ errorString env err)"

text \<open>Lines 414 to 453, the loop over the patches, with \<^verbatim>\<open>allErrs\<close> and the events so far.\<close>

definition applyPatch ::
  "SetEnv \<Rightarrow> SetResourcesOptions \<Rightarrow> Patch \<Rightarrow> error list \<times> event list \<Rightarrow> error list \<times> event list" where
  "applyPatch env opts patch st =
     (case st of (allErrs, evs) \<Rightarrow>
        (let info = PatchInfo patch
         in case PatchErr patch of
              Some err \<Rightarrow>
                (allErrs @ [Error (''error: '' @ ObjectName env info @ '' '' @ errorString env err @ newline)],
                 evs)
            | None \<Rightarrow>
                if PatchBytes patch = ''{}'' \<or> length (PatchBytes patch) = 0 then (allErrs, evs)
                else if Local opts \<or> DryRun opts = DryRunClient then
                  (case PrintObj env (InfoObject info) of
                     Some err \<Rightarrow> (allErrs @ [err], evs @ [EvPrint (InfoObject info)])
                   | None \<Rightarrow> (allErrs, evs @ [EvPrint (InfoObject info)]))
                else
                  (case (if DryRun opts = DryRunServer then HasSupport env info else None) of
                     Some err \<Rightarrow> (allErrs @ [errPatchFailed env err], evs)
                   | None \<Rightarrow>
                       (case helperPatch env (DryRun opts = DryRunServer) info (PatchBytes patch) of
                          (actual, Some err) \<Rightarrow>
                            (allErrs @ [errPatchFailed env err],
                             evs @ [EvPatch (DryRun opts = DryRunServer) info (PatchBytes patch)])
                        | (actual, None) \<Rightarrow>
                            (case PrintObj env actual of
                               Some err \<Rightarrow>
                                 (allErrs @ [err],
                                  evs @ [EvPatch (DryRun opts = DryRunServer) info (PatchBytes patch),
                                         EvPrint actual])
                             | None \<Rightarrow>
                                 (allErrs,
                                  evs @ [EvPatch (DryRun opts = DryRunServer) info (PatchBytes patch),
                                         EvPrint actual]))))))"

fun applyPatches ::
  "SetEnv \<Rightarrow> SetResourcesOptions \<Rightarrow> Patch list \<Rightarrow> error list \<times> event list \<Rightarrow> error list \<times> event list" where
  "applyPatches env opts [] st = st"
| "applyPatches env opts (patch # patches) st = applyPatches env opts patches (applyPatch env opts patch st)"

definition runDefault :: "SetEnv \<Rightarrow> SetResourcesOptions \<Rightarrow> retval \<times> event list" where
  "runDefault env opts =
     (case CalculatePatches env (Infos opts) (mutateObject env opts) of
        Inl msg \<Rightarrow> (Panic msg, [])
      | Inr (patches, errs, evs) \<Rightarrow>
          (case applyPatches env opts patches (errs, evs) of
             (allErrs, evs') \<Rightarrow> (Return (NewAggregate allErrs), evs')))"

definition SetResourcesOptions_Run :: "SetEnv \<Rightarrow> SetResourcesOptions \<Rightarrow> retval \<times> event list" where
  "SetResourcesOptions_Run env opts =
     (case Infos opts of
        [] \<Rightarrow> (Return None, [])
      | info # others \<Rightarrow>
          (case InfoObject info of
             CloneSet c \<Rightarrow> runWorkload env opts KCloneSet info
           | StatefulSet s \<Rightarrow> runWorkload env opts KStatefulSet info
           | _ \<Rightarrow> runDefault env opts))"

section \<open>exec: options, environment and events\<close>

text \<open>
  An I/O stream (\<^verbatim>\<open>io.Reader\<close>, \<^verbatim>\<open>io.Writer\<close>) is the name of its handle; the nil
  interface is \<open>None\<close>. \<^verbatim>\<open>term.TTY\<close> of the kubectl library is the record
  \<open>term_TTY\<close>.
\<close>

type_synonym stream = string

record term_TTY =
  Parent :: "string option"
  TTY_In :: "stream option"
  TTY_Out :: "stream option"
  Raw :: bool

text \<open>
  \<^verbatim>\<open>StreamOptions\<close> with the embedded \<^verbatim>\<open>IOStreams\<close> (\<open>In\<close>, \<open>Out\<close>, \<open>ErrOut\<close>).
  \<open>overrideStreams\<close> is a function without arguments: the field holds what a call
  returns. \<^verbatim>\<open>ExecOptions\<close> embeds \<^verbatim>\<open>StreamOptions\<close>: it is the record extended.
\<close>

record StreamOptions =
  Namespace :: string
  PodName :: string
  ContainerName :: string
  SidecarSetContainer :: string
  Stdin :: bool
  TTY :: bool
  Quiet :: bool
  InterruptParent :: "string option"
  In :: "stream option"
  Out :: "stream option"
  ErrOut :: "stream option"
  overrideStreams :: "(stream option \<times> stream option \<times> stream option) option"
  isTerminalIn :: "(term_TTY \<Rightarrow> bool) option"

record ExecOptions = StreamOptions +
  Filenames :: "string list"
  ResourceName :: string
  Command :: "string list"
  EnforceNamespace :: bool
  ParentCommandName :: string
  EnableSuggestedCmdUsage :: bool
  ExecPod :: "Pod option"
  GetPodTimeout :: nat

text \<open>
  \<^verbatim>\<open>corev1.PodExecOptions\<close>, and the call of \<^verbatim>\<open>Executor.Execute\<close> with the request
  (method, pod, sub-resource parameters) and the streams. \<open>CallSizeQueue\<close> says whether
  the queue that \<^verbatim>\<open>t.MonitorSize\<close> returned is handed over, or the nil queue.
\<close>

record PodExecOptions =
  Container :: string
  ExecCommand :: "string list"
  ExecStdin :: bool
  ExecStdout :: bool
  ExecStderr :: bool
  ExecTTY :: bool

record ExecuteCall =
  Method :: string
  ReqPodName :: string
  ReqPodNamespace :: string
  Params :: PodExecOptions
  CallStdin :: "stream option"
  CallStdout :: "stream option"
  CallStderr :: "stream option"
  CallTTY :: bool
  CallSizeQueue :: bool

datatype exec_event =
    Fprint stream string
  | MonitorSize term_TTY
  | Execute ExecuteCall

text \<open>
  The library calls and the helpers of the repository that are not under src/ are
  parameters, each returning what the Go call returns:
  \<^item> \<open>PodsGet namespace name\<close>: \<^verbatim>\<open>p.PodClient.Pods(namespace).Get\<close>;
  \<^item> \<open>BuilderObject enforce filenames namespace name\<close>: the resource builder's
    \<^verbatim>\<open>Do().Object()\<close>, \<open>name\<close> being given when \<^verbatim>\<open>ResourceNames\<close> was called;
  \<^item> \<open>ExecutablePodFn\<close>: \<^verbatim>\<open>p.ExecutablePodFn\<close>;
  \<^item> \<open>GetPodHotUpgradeInfoInAnnotations\<close>: the map from the names of hot-upgrade
    sidecar containers to their working containers (package util of the repository);
  \<^item> \<open>IsTerminalIn\<close>: \<^verbatim>\<open>tty.IsTerminalIn()\<close>; \<open>StdStreams\<close>:
    \<^verbatim>\<open>dockerterm.StdStreams()\<close>;
  \<^item> \<open>SafeSetup\<close>: \<^verbatim>\<open>t.Safe(fn)\<close> prepares the terminal and runs \<open>fn\<close>; the
    preparation may fail, and then \<open>fn\<close> does not run;
  \<^item> \<open>RESTClientFor\<close>: the error of \<^verbatim>\<open>restclient.RESTClientFor(p.Config)\<close>;
  \<^item> \<open>ExecutorExecute\<close>: the error of \<^verbatim>\<open>p.Executor.Execute\<close>.
\<close>

record ExecEnv =
  PodsGet :: "string \<Rightarrow> string \<Rightarrow> Pod option \<times> error option"
  BuilderObject :: "bool \<Rightarrow> string list \<Rightarrow> string \<Rightarrow> string option \<Rightarrow> runtime_object \<times> error option"
  ExecutablePodFn :: "runtime_object \<Rightarrow> nat \<Rightarrow> Pod option \<times> error option"
  GetPodHotUpgradeInfoInAnnotations :: "Pod \<Rightarrow> (string \<rightharpoonup> string)"
  IsTerminalIn :: "term_TTY \<Rightarrow> bool"
  StdStreams :: "stream option \<times> stream option \<times> stream option"
  SafeSetup :: "term_TTY \<Rightarrow> error option"
  RESTClientFor :: "error option"
  ExecutorExecute :: "ExecuteCall \<Rightarrow> error option"

section \<open>exec: Validate\<close>

definition ExecOptions_Validate :: "ExecOptions \<Rightarrow> error option" where
  "ExecOptions_Validate p =
     (if length (PodName p) = 0 \<and> length (ResourceName p) = 0 \<and> length (Filenames p) = 0 then
        Some (Error ''pod, type/name or --filename must be specified'')
      else if length (Command p) = 0 then
        Some (Error ''you must specify at least one command for the container'')
      else if Out p = None \<or> ErrOut p = None then
        Some (Error ''both output and error output must be provided'')
      else None)"

section \<open>exec: SetupTTY\<close>

text \<open>
  The method changes its receiver (\<open>In\<close>, \<open>Out\<close>, \<open>TTY\<close>, and the two test hooks when
  they are nil): it returns the TTY, the receiver as it leaves it, and what it wrote.
\<close>

definition StreamOptions_SetupTTY ::
  "ExecEnv \<Rightarrow> 'a StreamOptions_scheme \<Rightarrow> term_TTY \<times> 'a StreamOptions_scheme \<times> exec_event list" where
  "StreamOptions_SetupTTY env opts =
     (let t = \<lparr>Parent = InterruptParent opts, TTY_In = None, TTY_Out = Out opts, Raw = False\<rparr>
      in if \<not> Stdin opts then (t, opts\<lparr>In := None, TTY := False\<rparr>, [])
         else
           (let t1 = t\<lparr>TTY_In := In opts\<rparr>
            in if \<not> TTY opts then (t1, opts, [])
               else
                 (let isTerm = (case isTerminalIn opts of None \<Rightarrow> IsTerminalIn env | Some f \<Rightarrow> f);
                      o1 = opts\<lparr>isTerminalIn := Some isTerm\<rparr>
                  in if \<not> isTerm t1 then
                       (t1, o1\<lparr>TTY := False\<rparr>,
                        (case ErrOut o1 of
                           None \<Rightarrow> []
                         | Some w \<Rightarrow>
                             [Fprint w (''Unable to use a TTY - input is not a terminal or the right kind of file''
                                        @ newline)]))
                     else
                       (let t2 = t1\<lparr>Raw := True\<rparr>;
                            streams = (case overrideStreams o1 of None \<Rightarrow> StdStreams env | Some s \<Rightarrow> s);
                            o2 = o1\<lparr>overrideStreams := Some streams\<rparr>;
                            stdin = fst streams;
                            stdout = fst (snd streams);
                            o3 = o2\<lparr>In := stdin\<rparr>;
                            t3 = t2\<lparr>TTY_In := stdin\<rparr>
                        in if Out o3 \<noteq> None then (t3\<lparr>TTY_Out := stdout\<rparr>, o3\<lparr>Out := stdout\<rparr>, [])
                           else (t3, o3, [])))))"

section \<open>exec: Run\<close>

text \<open>
  Lines 293 to 316: the pod, by name through the pod client, or through the resource
  builder and \<^verbatim>\<open>ExecutablePodFn\<close>. \<^verbatim>\<open>p.Pod\<close> is assigned together with the error.
\<close>

definition getPod :: "ExecEnv \<Rightarrow> ExecOptions \<Rightarrow> ExecOptions \<times> error option" where
  "getPod env p =
     (if length (PodName p) \<noteq> 0 then
        (case PodsGet env (Namespace p) (PodName p) of
           (pod, err) \<Rightarrow> (p\<lparr>ExecPod := pod\<rparr>, err))
      else
        (case BuilderObject env (EnforceNamespace p) (Filenames p) (Namespace p)
                (if length (ResourceName p) > 0 then Some (ResourceName p) else None) of
           (obj, Some err) \<Rightarrow> (p, Some err)
         | (obj, None) \<Rightarrow>
             (case ExecutablePodFn env obj (GetPodTimeout p) of
                (pod, err) \<Rightarrow> (p\<lparr>ExecPod := pod\<rparr>, err))))"

text \<open>\<^verbatim>\<open>fmt.Fprintf\<close> on a writer: calling \<^verbatim>\<open>Write\<close> on the nil interface panics.\<close>

definition Fprintf :: "stream option \<Rightarrow> string \<Rightarrow> string + exec_event list" where
  "Fprintf w msg =
     (case w of
        None \<Rightarrow> Inl ''invalid memory address or nil pointer dereference''
      | Some s \<Rightarrow> Inr [Fprint s msg])"

text \<open>
  Lines 323 to 339: the name of the container, and what is written to \<^verbatim>\<open>p.ErrOut\<close> on
  the way. \<^verbatim>\<open>pod.Spec.Containers[0]\<close> on an empty slice panics.
\<close>

definition defaultingMessages :: "ExecOptions \<Rightarrow> Pod \<Rightarrow> string list" where
  "defaultingMessages p pod =
     (if length (Containers (PodSpecOf pod)) > 1 then
        (''Defaulting container name to '' @ Name (hd (Containers (PodSpecOf pod))) @ ''.'' @ newline)
        # (if EnableSuggestedCmdUsage p then
             [''Use '' @ [CHR 0x27] @ ParentCommandName p @ '' describe pod/'' @ ObjName (PodMeta pod)
                @ '' -n '' @ Namespace p @ [CHR 0x27]
                @ '' to see all of the containers in this pod.'' @ newline]
           else [])
      else [])"

fun FprintfAll :: "stream option \<Rightarrow> string list \<Rightarrow> string + exec_event list" where
  "FprintfAll w [] = Inr []"
| "FprintfAll w (msg # msgs) =
     (case Fprintf w msg of
        Inl e \<Rightarrow> Inl e
      | Inr evs \<Rightarrow> (case FprintfAll w msgs of Inl e \<Rightarrow> Inl e | Inr evs' \<Rightarrow> Inr (evs @ evs')))"

definition chooseContainer :: "ExecEnv \<Rightarrow> ExecOptions \<Rightarrow> Pod \<Rightarrow> string + string \<times> exec_event list" where
  "chooseContainer env p pod =
     (case (case GetPodHotUpgradeInfoInAnnotations env pod (SidecarSetContainer p) of
              Some workingContainer \<Rightarrow>
                (case Fprintf (ErrOut p)
                        (''Enter working container '' @ workingContainer @ '' of SidecarSet.'' @ newline) of
                   Inl e \<Rightarrow> Inl e
                 | Inr evs \<Rightarrow> Inr (workingContainer, evs))
            | None \<Rightarrow> Inr (ContainerName p, [])) of
        Inl e \<Rightarrow> Inl e
      | Inr (containerName, evs) \<Rightarrow>
          if length containerName = 0 then
            (case FprintfAll (ErrOut p) (defaultingMessages p pod) of
               Inl e \<Rightarrow> Inl e
             | Inr evs' \<Rightarrow>
                 (case Containers (PodSpecOf pod) of
                    [] \<Rightarrow> Inl ''index out of range [0] with length 0''
                  | c # cs \<Rightarrow> Inr (Name c, evs @ evs')))
          else Inr (containerName, evs))"

text \<open>
  Lines 354 to 376, the function handed to \<^verbatim>\<open>t.Safe\<close>: the request of the exec
  sub-resource and the call of the executor.
\<close>

definition execCall :: "ExecOptions \<Rightarrow> Pod \<Rightarrow> string \<Rightarrow> term_TTY \<Rightarrow> bool \<Rightarrow> ExecuteCall" where
  "execCall p pod containerName t sizeQueue =
     \<lparr>Method = ''POST'',
      ReqPodName = ObjName (PodMeta pod),
      ReqPodNamespace = ObjNamespace (PodMeta pod),
      Params = \<lparr>Container = containerName, ExecCommand = Command p, ExecStdin = Stdin p,
                ExecStdout = (Out p \<noteq> None), ExecStderr = (ErrOut p \<noteq> None), ExecTTY = Raw t\<rparr>,
      CallStdin = In p, CallStdout = Out p, CallStderr = ErrOut p,
      CallTTY = Raw t, CallSizeQueue = sizeQueue\<rparr>"

definition ExecOptions_Run :: "ExecEnv \<Rightarrow> ExecOptions \<Rightarrow> retval \<times> ExecOptions \<times> exec_event list" where
  "ExecOptions_Run env p0 =
     (case getPod env p0 of
        (p, Some err) \<Rightarrow> (Return (Some err), p, [])
      | (p, None) \<Rightarrow>
          (case ExecPod p of
             None \<Rightarrow> (Panic ''invalid memory address or nil pointer dereference'', p, [])
           | Some pod \<Rightarrow>
               if Phase pod = PodSucceeded \<or> Phase pod = PodFailed then
                 (Return (Some (Error
                    (''cannot exec into a container in a completed pod; current phase is '' @ Phase pod))),
                  p, [])
               else
                 (case chooseContainer env p pod of
                    Inl msg \<Rightarrow> (Panic msg, p, [])
                  | Inr (containerName, evs) \<Rightarrow>
                      (case StreamOptions_SetupTTY env p of
                         (t, p1, evs1) \<Rightarrow>
                           (let p2 = (if Raw t then p1\<lparr>ErrOut := None\<rparr> else p1);
                                evs2 = evs @ evs1 @ (if Raw t then [MonitorSize t] else [])
                            in case SafeSetup env t of
                                 Some err \<Rightarrow> (Return (Some err), p2, evs2)
                               | None \<Rightarrow>
                                   (case RESTClientFor env of
                                      Some err \<Rightarrow> (Return (Some err), p2, evs2)
                                    | None \<Rightarrow>
                                        (let call = execCall p2 pod containerName t (Raw t)
                                         in (Return (ExecutorExecute env call), p2,
                                             evs2 @ [Execute call]))))))))"

section \<open>Observations of a run\<close>

text \<open>What a run of \<^verbatim>\<open>set resources\<close> did, read off its events.\<close>

fun fetched :: "event list \<Rightarrow> Info list" where
  "fetched [] = []"
| "fetched (EvGet info # evs) = info # fetched evs"
| "fetched (ev # evs) = fetched evs"

fun recorded :: "event list \<Rightarrow> runtime_object list" where
  "recorded [] = []"
| "recorded (EvRecord obj # evs) = obj # recorded evs"
| "recorded (ev # evs) = recorded evs"

fun replaced :: "event list \<Rightarrow> (Info \<times> runtime_object) list" where
  "replaced [] = []"
| "replaced (EvReplace info obj # evs) = (info, obj) # replaced evs"
| "replaced (ev # evs) = replaced evs"

fun printed :: "event list \<Rightarrow> runtime_object list" where
  "printed [] = []"
| "printed (EvPrint obj # evs) = obj # printed evs"
| "printed (ev # evs) = printed evs"

text \<open>
  The options as \<^verbatim>\<open>Validate\<close> leaves them: \<open>Requirements\<close> is what the parser made of the
  two flag strings, so an empty flag has no entry, and the keys of a Go map are distinct.
\<close>

definition flagsParsed :: "SetResourcesOptions \<Rightarrow> bool" where
  "flagsParsed opts =
     ((LimitsFlag opts = [] \<longrightarrow> entries (Limits (Requirements opts)) = [])
      \<and> (RequestsFlag opts = [] \<longrightarrow> entries (Requests (Requirements opts)) = [])
      \<and> distinct (map fst (entries (Limits (Requirements opts))))
      \<and> distinct (map fst (entries (Requests (Requirements opts)))))"

text \<open>What a run of \<^verbatim>\<open>exec\<close> did: the calls of the executor and of \<^verbatim>\<open>MonitorSize\<close>.\<close>

fun executeCalls :: "exec_event list \<Rightarrow> ExecuteCall list" where
  "executeCalls [] = []"
| "executeCalls (Execute c # evs) = c # executeCalls evs"
| "executeCalls (ev # evs) = executeCalls evs"

fun monitorCalls :: "exec_event list \<Rightarrow> term_TTY list" where
  "monitorCalls [] = []"
| "monitorCalls (MonitorSize t # evs) = t # monitorCalls evs"
| "monitorCalls (ev # evs) = monitorCalls evs"

text \<open>
  Whether the input stream is a terminal: the answer of the check that \<^verbatim>\<open>SetupTTY\<close> makes
  (the test hook \<open>isTerminalIn\<close> when it is set, \<^verbatim>\<open>tty.IsTerminalIn()\<close> otherwise) on the
  TTY it has built from the options.
\<close>

definition inputIsTerminal :: "ExecEnv \<Rightarrow> 'a StreamOptions_scheme \<Rightarrow> bool" where
  "inputIsTerminal env opts =
     (case isTerminalIn opts of None \<Rightarrow> IsTerminalIn env | Some f \<Rightarrow> f)
       \<lparr>Parent = InterruptParent opts, TTY_In = In opts, TTY_Out = Out opts, Raw = False\<rparr>"

text \<open>
  The precedence of container names in words, to be compared with what \<^verbatim>\<open>Run\<close> does
  (\<open>None\<close>: there is no such container). \<open>containerPrecedence\<close>: a non-empty working
  container of the sidecar wins; an empty one leads to the first container of the pod;
  without a working container the \<^verbatim>\<open>-c\<close> name is taken when it is not empty, and the
  first container otherwise. \<open>claimedContainer\<close>: any working container wins, also the
  empty name.
\<close>

fun firstContainerName :: "Container list \<Rightarrow> string option" where
  "firstContainerName [] = None"
| "firstContainerName (c # cs) = Some (Name c)"

definition containerPrecedence :: "string option \<Rightarrow> string \<Rightarrow> Container list \<Rightarrow> string option" where
  "containerPrecedence working cflag cs =
     (case working of
        Some w \<Rightarrow> if w \<noteq> [] then Some w else firstContainerName cs
      | None \<Rightarrow> if cflag \<noteq> [] then Some cflag else firstContainerName cs)"

definition claimedContainer :: "string option \<Rightarrow> string \<Rightarrow> Container list \<Rightarrow> string option" where
  "claimedContainer working cflag cs =
     (case working of
        Some w \<Rightarrow> Some w
      | None \<Rightarrow> if cflag \<noteq> [] then Some cflag else firstContainerName cs)"

section \<open>Concrete inputs\<close>


definition exampleMeta :: ObjectMeta where
  "exampleMeta = \<lparr>ObjName = ''sample'', ObjNamespace = ''default'', Labels = [(''app'', ''sample'')],
                   Annotations = []\<rparr>"



text \<open>
  A CloneSet of two containers behind a server that answers every call, a parser that
  knows one flag string, and the selector that matches a name or \<open>*\<close>.
\<close>

definition exampleWorkload :: Workload where
  "exampleWorkload =
     \<lparr>Meta = exampleMeta,
      Spec = \<lparr>Replicas = Some 3,
              Template = \<lparr>TemplateMeta = exampleMeta,
                           TemplateSpec =
                             \<lparr>Containers =
                                [\<lparr>Name = ''nginx'', Image = ''nginx:1.25'',
                                  Resources = \<lparr>Limits = Some [(''memory'', ''128Mi'')], Requests = None\<rparr>\<rparr>,
                                 \<lparr>Name = ''sidecar'', Image = ''envoy:1.30'',
                                  Resources = \<lparr>Limits = None, Requests = None\<rparr>\<rparr>],
                              NodeName = '''', ServiceAccountName = ''default''\<rparr>\<rparr>\<rparr>,
      Status = \<lparr>StatusReplicas = 3, ReadyReplicas = 3, UpdatedReplicas = 3\<rparr>\<rparr>"

definition exampleParse :: "string \<Rightarrow> string \<Rightarrow> ResourceRequirements \<times> error option" where
  "exampleParse lim req =
     (if lim = ''cpu=200m'' \<and> req = '''' then
        (\<lparr>Limits = Some [(''cpu'', ''200m'')], Requests = None\<rparr>, None)
      else (\<lparr>Limits = None, Requests = None\<rparr>,
            Some (Error ''Invalid argument syntax, expected <resource>=<value>'')))"

definition exampleSetEnv :: SetEnv where
  "exampleSetEnv =
     \<lparr>HandleResourceRequirementsV1 = exampleParse,
      selectString = (\<lambda>name spec. spec = ''*'' \<or> name = spec),
      helperGet = (\<lambda>info. (CloneSet exampleWorkload, None)),
      accessorName = (\<lambda>obj. None),
      recorderRecord = (\<lambda>obj. (obj, None)),
      helperReplace = (\<lambda>info obj. (obj, None)),
      PrintObj = (\<lambda>obj. None),
      aggregateString = (\<lambda>errs. ''[]''),
      UpdatePodSpecForObject =
        (\<lambda>obj fn. Inr (obj, False, [],
           Some (Error ''the object is not a pod or does not have a pod template''))),
      runtimeEncode = (\<lambda>obj. (Some ''{}'', None)),
      CalculatePatches = (\<lambda>infos fn. Inr ([], [], [])),
      ObjectName = (\<lambda>info. InfoName info),
      HasSupport = (\<lambda>info. None),
      helperPatch = (\<lambda>dryRun info patch. (InfoObject info, None))\<rparr>"

definition exampleInfo :: "string \<Rightarrow> Info" where
  "exampleInfo n =
     \<lparr>InfoObject = CloneSet exampleWorkload, InfoNamespace = ''default'', InfoName = n,
      InfoMapping = ''clonesets.apps.kruise.io''\<rparr>"

definition exampleSetOptions :: "string \<Rightarrow> SetResourcesOptions" where
  "exampleSetOptions spec =
     \<lparr>Infos = [exampleInfo ''sample'', exampleInfo ''other''], Selector = '''',
      ContainerSelector = spec, All = False, Local = False, DryRun = DryRunNone,
      LimitsFlag = ''cpu=200m'', RequestsFlag = '''',
      Requirements = \<lparr>Limits = Some [(''cpu'', ''200m'')], Requests = None\<rparr>\<rparr>"

definition unvalidatedSetOptions :: "string \<Rightarrow> string \<Rightarrow> SetResourcesOptions" where
  "unvalidatedSetOptions lim req =
     \<lparr>Infos = [exampleInfo ''sample''], Selector = '''', ContainerSelector = ''*'', All = False,
      Local = False, DryRun = DryRunNone, LimitsFlag = lim, RequestsFlag = req,
      Requirements = \<lparr>Limits = None, Requests = None\<rparr>\<rparr>"

text \<open>A pod of three containers, and an environment of \<^verbatim>\<open>exec\<close> in which every call succeeds.\<close>

definition exampleContainer :: "string \<Rightarrow> Container" where
  "exampleContainer n = \<lparr>Name = n, Image = ''busybox'', Resources = \<lparr>Limits = None, Requests = None\<rparr>\<rparr>"

definition examplePod :: "PodPhase \<Rightarrow> Pod" where
  "examplePod ph =
     \<lparr>PodMeta = \<lparr>ObjName = ''mypod'', ObjNamespace = ''default'', Labels = [], Annotations = []\<rparr>,
      PodSpecOf = \<lparr>Containers = [exampleContainer ''main'', exampleContainer ''mesh-1'',
                                  exampleContainer ''mesh-2''],
                   NodeName = ''node-1'', ServiceAccountName = ''default''\<rparr>,
      Phase = ph\<rparr>"

definition exampleExecEnv :: "Pod \<Rightarrow> (string \<rightharpoonup> string) \<Rightarrow> bool \<Rightarrow> ExecEnv" where
  "exampleExecEnv pod hot terminal =
     \<lparr>PodsGet = (\<lambda>ns name. (Some pod, None)),
      BuilderObject = (\<lambda>enforce files ns name. (PodObj pod, None)),
      ExecutablePodFn = (\<lambda>obj timeout. (Some pod, None)),
      GetPodHotUpgradeInfoInAnnotations = (\<lambda>pod. hot),
      IsTerminalIn = (\<lambda>t. terminal),
      StdStreams = (Some ''os.Stdin'', Some ''os.Stdout'', Some ''os.Stderr''),
      SafeSetup = (\<lambda>t. None),
      RESTClientFor = None,
      ExecutorExecute = (\<lambda>call. None)\<rparr>"

definition exampleExecOptions :: "string \<Rightarrow> string \<Rightarrow> bool \<Rightarrow> bool \<Rightarrow> ExecOptions" where
  "exampleExecOptions cflag sflag i t =
     \<lparr>Namespace = ''default'', PodName = ''mypod'', ContainerName = cflag,
      SidecarSetContainer = sflag, Stdin = i, TTY = t, Quiet = False, InterruptParent = None,
      In = Some ''stdin'', Out = Some ''stdout'', ErrOut = Some ''stderr'',
      overrideStreams = None, isTerminalIn = None,
      Filenames = [], ResourceName = [], Command = [''date''], EnforceNamespace = False,
      ParentCommandName = ''kubectl-kruise'', EnableSuggestedCmdUsage = False,
      ExecPod = None, GetPodTimeout = 60\<rparr>"

section \<open>defaultObjectApprover: the outcomes\<close>




section \<open>set resources: Validate\<close>

text \<open>
  Claim C3. \<^verbatim>\<open>Validate\<close> of \<^verbatim>\<open>set resources\<close> returns an error exactly when
  \<^verbatim>\<open>--local\<close> comes with \<^verbatim>\<open>--dry-run=server\<close>, or \<^verbatim>\<open>--all\<close> with a non-empty
  \<^verbatim>\<open>--selector\<close>, or \<^verbatim>\<open>--limits\<close> and \<^verbatim>\<open>--requests\<close> are both empty, or the parser
  rejects the two strings; when it returns nil, the options hold the parsed requirements
  and are otherwise unchanged.
\<close>

theorem SetResourcesOptions_Validate_error_iff:
  "(fst (SetResourcesOptions_Validate env opts) \<noteq> None) =
     ((Local opts \<and> DryRun opts = DryRunServer)
      \<or> (All opts \<and> Selector opts \<noteq> [])
      \<or> (LimitsFlag opts = [] \<and> RequestsFlag opts = [])
      \<or> snd (HandleResourceRequirementsV1 env (LimitsFlag opts) (RequestsFlag opts)) \<noteq> None)
   \<and> (fst (SetResourcesOptions_Validate env opts) = None \<longrightarrow>
        snd (SetResourcesOptions_Validate env opts) =
          opts\<lparr>Requirements :=
                 fst (HandleResourceRequirementsV1 env (LimitsFlag opts) (RequestsFlag opts))\<rparr>)"
  by (auto simp: SetResourcesOptions_Validate_def split: prod.splits)

theorem SetResourcesOptions_Validate_error_iff_witness:
  "SetResourcesOptions_Validate exampleSetEnv (unvalidatedSetOptions ''cpu=200m'' '''')
     = (None, exampleSetOptions ''*''\<lparr>Infos := [exampleInfo ''sample'']\<rparr>)
   \<and> fst (SetResourcesOptions_Validate exampleSetEnv (unvalidatedSetOptions '''' ''''))
       = Some (Error ''you must specify an update to requests or limits (in the form of --requests/--limits)'')
   \<and> fst (SetResourcesOptions_Validate exampleSetEnv (unvalidatedSetOptions ''cpu'' ''''))
       = Some (Error ''Invalid argument syntax, expected <resource>=<value>'')
   \<and> fst (SetResourcesOptions_Validate exampleSetEnv ((unvalidatedSetOptions ''cpu=200m'' '''')
              \<lparr>Local := True, DryRun := DryRunServer\<rparr>)) \<noteq> None
   \<and> fst (SetResourcesOptions_Validate exampleSetEnv ((unvalidatedSetOptions ''cpu=200m'' '''')
              \<lparr>Selector := ''app=sample'', All := True\<rparr>)) \<noteq> None"
  using SetResourcesOptions_Validate_error_iff [of exampleSetEnv "unvalidatedSetOptions ''cpu=200m'' ''''"]
        SetResourcesOptions_Validate_error_iff [of exampleSetEnv "unvalidatedSetOptions '''' ''''"]
        SetResourcesOptions_Validate_error_iff [of exampleSetEnv "unvalidatedSetOptions ''cpu'' ''''"]
        SetResourcesOptions_Validate_error_iff
          [of exampleSetEnv "(unvalidatedSetOptions ''cpu=200m'' '''')\<lparr>Local := True, DryRun := DryRunServer\<rparr>"]
        SetResourcesOptions_Validate_error_iff
          [of exampleSetEnv "(unvalidatedSetOptions ''cpu=200m'' '''')\<lparr>Selector := ''app=sample'', All := True\<rparr>"]
  by (simp add: SetResourcesOptions_Validate_def unvalidatedSetOptions_def exampleSetOptions_def
        exampleSetEnv_def exampleParse_def)

section \<open>set resources: the update of the containers\<close>

lemma assignAll_Some:
  "\<exists>al'. assignAll (Some al) kvs = Inr (Some al')
      \<and> (\<forall>k. k \<notin> fst ` set kvs \<longrightarrow> map_of al' k = map_of al k)
      \<and> (distinct (map fst kvs) \<longrightarrow> (\<forall>(k, v) \<in> set kvs. map_of al' k = Some v))"
proof (induction kvs arbitrary: al)
  case Nil
  then show ?case by simp
next
  case (Cons kv kvs)
  obtain k0 v0 where kv: "kv = (k0, v0)"
    by (cases kv)
  from Cons.IH [of "AList.update k0 v0 al"] obtain al' where
    run: "assignAll (Some (AList.update k0 v0 al)) kvs = Inr (Some al')"
    and keep: "\<forall>k. k \<notin> fst ` set kvs \<longrightarrow> map_of al' k = map_of (AList.update k0 v0 al) k"
    and new: "distinct (map fst kvs) \<longrightarrow> (\<forall>(k, v) \<in> set kvs. map_of al' k = Some v)"
    by blast
  have "assignAll (Some al) (kv # kvs) = Inr (Some al')"
    using run kv by simp
  moreover have "\<forall>k. k \<notin> fst ` set (kv # kvs) \<longrightarrow> map_of al' k = map_of al k"
    using keep kv by (auto simp: update_conv')
  moreover have "distinct (map fst (kv # kvs)) \<longrightarrow> (\<forall>(k, v) \<in> set (kv # kvs). map_of al' k = Some v)"
    using keep new kv by (auto simp: update_conv')
  ultimately show ?case
    by blast
qed

lemma assign_flag:
  assumes "flag = [] \<longrightarrow> entries new = []" and "distinct (map fst (entries new))"
  shows "\<exists>res. assignAll (if length flag \<noteq> 0 \<and> len_rl old = 0 then Some [] else old) (entries new) = Inr res
      \<and> (\<forall>(k, v) \<in> set (entries new). lookup_rl res k = Some v)
      \<and> (\<forall>k. k \<notin> fst ` set (entries new) \<longrightarrow> lookup_rl res k = lookup_rl old k)
      \<and> (flag \<noteq> [] \<longrightarrow> res \<noteq> None)
      \<and> (flag = [] \<longrightarrow> res = old)"
proof (cases "flag = []")
  case True
  with assms show ?thesis
    by simp
next
  case False
  show ?thesis
  proof (cases "len_rl old = 0")
    case True
    then have old: "\<forall>k. lookup_rl old k = None"
      by (auto simp: len_rl_def lookup_rl_def entries_def split: option.splits)
    from assignAll_Some [of "[]" "entries new"] obtain al' where
      "assignAll (Some []) (entries new) = Inr (Some al')"
      "\<forall>k. k \<notin> fst ` set (entries new) \<longrightarrow> map_of al' k = map_of [] k"
      "distinct (map fst (entries new)) \<longrightarrow> (\<forall>(k, v) \<in> set (entries new). map_of al' k = Some v)"
      by blast
    with False True old assms(2) show ?thesis
      by (auto simp: lookup_rl_def entries_def)
  next
    case nonempty: False
    then obtain al where al: "old = Some al"
      by (auto simp: len_rl_def split: option.splits)
    from assignAll_Some [of al "entries new"] obtain al' where
      "assignAll (Some al) (entries new) = Inr (Some al')"
      "\<forall>k. k \<notin> fst ` set (entries new) \<longrightarrow> map_of al' k = map_of al k"
      "distinct (map fst (entries new)) \<longrightarrow> (\<forall>(k, v) \<in> set (entries new). map_of al' k = Some v)"
      by blast
    with False nonempty al assms(2) show ?thesis
      by (auto simp: lookup_rl_def entries_def)
  qed
qed

lemma setContainerResources_ok:
  assumes "flagsParsed opts"
  shows "\<exists>lim req. setContainerResources opts c =
            Inr (c\<lparr>Resources := (Resources c)\<lparr>Limits := lim, Requests := req\<rparr>\<rparr>)
      \<and> (\<forall>(k, v) \<in> set (entries (Limits (Requirements opts))). lookup_rl lim k = Some v)
      \<and> (\<forall>k. k \<notin> fst ` set (entries (Limits (Requirements opts)))
             \<longrightarrow> lookup_rl lim k = lookup_rl (Limits (Resources c)) k)
      \<and> (LimitsFlag opts \<noteq> [] \<longrightarrow> lim \<noteq> None)
      \<and> (\<forall>(k, v) \<in> set (entries (Requests (Requirements opts))). lookup_rl req k = Some v)
      \<and> (\<forall>k. k \<notin> fst ` set (entries (Requests (Requirements opts)))
             \<longrightarrow> lookup_rl req k = lookup_rl (Requests (Resources c)) k)
      \<and> (RequestsFlag opts \<noteq> [] \<longrightarrow> req \<noteq> None)"
proof -
  from assms have l: "LimitsFlag opts = [] \<longrightarrow> entries (Limits (Requirements opts)) = []"
    "distinct (map fst (entries (Limits (Requirements opts))))"
    and r: "RequestsFlag opts = [] \<longrightarrow> entries (Requests (Requirements opts)) = []"
    "distinct (map fst (entries (Requests (Requirements opts))))"
    by (simp_all add: flagsParsed_def)
  from assign_flag [OF l, of "Limits (Resources c)"] obtain lim where
    lim: "assignAll (if length (LimitsFlag opts) \<noteq> 0 \<and> len_rl (Limits (Resources c)) = 0
                     then Some [] else Limits (Resources c))
            (entries (Limits (Requirements opts))) = Inr lim"
      "\<forall>(k, v) \<in> set (entries (Limits (Requirements opts))). lookup_rl lim k = Some v"
      "\<forall>k. k \<notin> fst ` set (entries (Limits (Requirements opts)))
             \<longrightarrow> lookup_rl lim k = lookup_rl (Limits (Resources c)) k"
      "LimitsFlag opts \<noteq> [] \<longrightarrow> lim \<noteq> None"
    by blast
  from assign_flag [OF r, of "Requests (Resources c)"] obtain req where
    req: "assignAll (if length (RequestsFlag opts) \<noteq> 0 \<and> len_rl (Requests (Resources c)) = 0
                     then Some [] else Requests (Resources c))
            (entries (Requests (Requirements opts))) = Inr req"
      "\<forall>(k, v) \<in> set (entries (Requests (Requirements opts))). lookup_rl req k = Some v"
      "\<forall>k. k \<notin> fst ` set (entries (Requests (Requirements opts)))
             \<longrightarrow> lookup_rl req k = lookup_rl (Requests (Resources c)) k"
      "RequestsFlag opts \<noteq> [] \<longrightarrow> req \<noteq> None"
    by blast
  have "setContainerResources opts c =
          Inr (c\<lparr>Resources := (Resources c)\<lparr>Limits := lim, Requests := req\<rparr>\<rparr>)"
    unfolding setContainerResources_def Let_def using lim(1) req(1) by simp
  with lim(2-4) req(2-4) show ?thesis
    by blast
qed

lemma updateContainers_ok:
  assumes "flagsParsed opts" and "distinct ps" and "\<forall>p \<in> set ps. p < length cs"
  shows "\<exists>cs'. updateContainers opts ps (cs, b) = Inr (cs', b \<or> ps \<noteq> [])
      \<and> length cs' = length cs
      \<and> (\<forall>j < length cs. j \<notin> set ps \<longrightarrow> cs' ! j = cs ! j)
      \<and> (\<forall>j \<in> set ps. setContainerResources opts (cs ! j) = Inr (cs' ! j))"
  using assms(2,3)
proof (induction ps arbitrary: cs b)
  case Nil
  then show ?case by simp
next
  case (Cons p ps)
  from setContainerResources_ok [OF assms(1), of "cs ! p"] obtain c where
    c: "setContainerResources opts (cs ! p) = Inr c"
    by blast
  from Cons.prems have d: "distinct ps" "p \<notin> set ps" "p < length cs"
    and bound: "\<forall>q \<in> set ps. q < length (cs[p := c])"
    by simp_all
  from Cons.IH [OF d(1) bound, of True] obtain cs' where
    run: "updateContainers opts ps (cs[p := c], True) = Inr (cs', True)"
    and len: "length cs' = length cs"
    and keep: "\<forall>j < length cs. j \<notin> set ps \<longrightarrow> cs' ! j = cs[p := c] ! j"
    and upd: "\<forall>j \<in> set ps. setContainerResources opts (cs[p := c] ! j) = Inr (cs' ! j)"
    by auto
  have "updateContainers opts (p # ps) (cs, b) = Inr (cs', b \<or> p # ps \<noteq> [])"
    using c run by simp
  moreover have "\<forall>j < length cs. j \<notin> set (p # ps) \<longrightarrow> cs' ! j = cs ! j"
    using keep by auto
  moreover have "\<forall>j \<in> set (p # ps). setContainerResources opts (cs ! j) = Inr (cs' ! j)"
  proof
    fix j assume j: "j \<in> set (p # ps)"
    show "setContainerResources opts (cs ! j) = Inr (cs' ! j)"
    proof (cases "j = p")
      case True
      with keep d c show ?thesis by simp
    next
      case False
      with j upd show ?thesis by auto
    qed
  qed
  ultimately show ?case
    using len by blast
qed

lemma updateSelected_ok:
  assumes "flagsParsed opts"
  shows "\<exists>cs'. updateSelected env opts cs =
            Inr (cs', (\<exists>j < length cs. selectString env (Name (cs ! j)) (ContainerSelector opts)),
                 if (\<exists>j < length cs. selectString env (Name (cs ! j)) (ContainerSelector opts))
                 then [] else [errNoContainer (ContainerSelector opts)])
      \<and> length cs' = length cs
      \<and> (\<forall>j < length cs.
            (selectString env (Name (cs ! j)) (ContainerSelector opts)
               \<longrightarrow> setContainerResources opts (cs ! j) = Inr (cs' ! j))
            \<and> (\<not> selectString env (Name (cs ! j)) (ContainerSelector opts) \<longrightarrow> cs' ! j = cs ! j))"
proof -
  let ?ps = "filter (\<lambda>i. selectString env (Name (cs ! i)) (ContainerSelector opts)) [0..<length cs]"
  have mem: "\<And>j. j \<in> set ?ps \<longleftrightarrow> j < length cs \<and> selectString env (Name (cs ! j)) (ContainerSelector opts)"
    by auto
  have ne: "?ps \<noteq> [] \<longleftrightarrow> (\<exists>j < length cs. selectString env (Name (cs ! j)) (ContainerSelector opts))"
    using mem by (metis (no_types, lifting) empty_iff empty_set ex_in_conv set_empty)
  have "distinct ?ps" "\<forall>p \<in> set ?ps. p < length cs"
    by simp_all
  from updateContainers_ok [OF assms this, of False] obtain cs' where
    run: "updateContainers opts ?ps (cs, False) = Inr (cs', False \<or> ?ps \<noteq> [])"
    and len: "length cs' = length cs"
    and keep: "\<forall>j < length cs. j \<notin> set ?ps \<longrightarrow> cs' ! j = cs ! j"
    and upd: "\<forall>j \<in> set ?ps. setContainerResources opts (cs ! j) = Inr (cs' ! j)"
    by blast
  show ?thesis
  proof (cases "?ps = []")
    case True
    then have "updateSelected env opts cs = Inr (cs, False, [errNoContainer (ContainerSelector opts)])"
      by (simp add: updateSelected_def selectContainers_def)
    with True ne show ?thesis
      by auto
  next
    case False
    then have "updateSelected env opts cs = Inr (cs', True, [])"
      using run by (simp add: updateSelected_def selectContainers_def)
    with False ne len keep upd mem show ?thesis
      by auto
  qed
qed

section \<open>set resources: Run\<close>

lemma Validate_flagsParsed:
  assumes "\<And>lim req rr err. HandleResourceRequirementsV1 env lim req = (rr, err) \<Longrightarrow>
             (lim = [] \<longrightarrow> entries (Limits rr) = []) \<and> (req = [] \<longrightarrow> entries (Requests rr) = [])
             \<and> distinct (map fst (entries (Limits rr))) \<and> distinct (map fst (entries (Requests rr)))"
    and "SetResourcesOptions_Validate env opts = (None, opts')"
  shows "flagsParsed opts'"
proof -
  obtain rr err where p: "HandleResourceRequirementsV1 env (LimitsFlag opts) (RequestsFlag opts) = (rr, err)"
    by (cases "HandleResourceRequirementsV1 env (LimitsFlag opts) (RequestsFlag opts)")
  with assms(2) have "opts' = opts\<lparr>Requirements := rr\<rparr>"
    by (auto simp: SetResourcesOptions_Validate_def split: if_splits)
  with assms(1) [OF p] show ?thesis
    by (simp add: flagsParsed_def)
qed

lemma assertType_wrap: "assertType k (wrap k res) = Some res"
  by (cases k) simp_all

lemma Run_workload:
  assumes "Infos opts = info # others" and "InfoObject info = wrap k w"
  shows "SetResourcesOptions_Run env opts = runWorkload env opts k info"
  using assms by (cases k) (simp_all add: SetResourcesOptions_Run_def)

lemma runWorkload_transformed:
  assumes "helperGet env info = (wrap k res, None)" and "accessorName env (wrap k res) = None"
    and "updateSelected env opts (containersOf res) = Inr (cs', True, errs)"
  shows "recorded (snd (runWorkload env opts k info)) = [wrap k (withContainers res cs')]"
  using assms
  by (simp add: runWorkload_def assertType_wrap Let_def split: prod.splits option.splits)

lemma runWorkload_not_transformed:
  assumes "helperGet env info = (wrap k res, None)" and "accessorName env (wrap k res) = None"
    and "updateSelected env opts (containersOf res) = Inr (cs', False, errs)"
  shows "runWorkload env opts k info = (Return None, [EvGet info])"
  using assms by (simp add: runWorkload_def assertType_wrap)

lemma runWorkload_events:
  "fetched (snd (runWorkload env opts k info)) = [info]
   \<and> set (map fst (replaced (snd (runWorkload env opts k info)))) \<subseteq> {info}
   \<and> length (replaced (snd (runWorkload env opts k info))) \<le> 1
   \<and> length (printed (snd (runWorkload env opts k info))) \<le> 1"
  by (simp add: runWorkload_def Let_def split: prod.splits option.splits sum.splits)

lemma setContainerResources_Infos:
  "setContainerResources (opts\<lparr>Infos := x\<rparr>) c = setContainerResources opts c"
  by (simp add: setContainerResources_def Let_def split: sum.splits)

lemma updateContainers_Infos:
  "updateContainers (opts\<lparr>Infos := x\<rparr>) ps s = updateContainers opts ps s"
  by (induction opts ps s rule: updateContainers.induct)
     (simp_all add: setContainerResources_Infos split: sum.splits)

lemma updateSelected_Infos:
  "updateSelected env (opts\<lparr>Infos := x\<rparr>) cs = updateSelected env opts cs"
  by (simp add: updateSelected_def updateContainers_Infos Let_def)

lemma runWorkload_Infos:
  "runWorkload env (opts\<lparr>Infos := x\<rparr>) k info = runWorkload env opts k info"
  by (simp add: runWorkload_def updateSelected_Infos Let_def
           split: prod.splits option.splits sum.splits)

lemma runWorkload_after_update:
  assumes "helperGet env info = (wrap k res, None)" and "accessorName env (wrap k res) = None"
    and "updateSelected env opts (containersOf res) = Inr (cs', True, errs)"
    and "helperReplace env info (fst (recorderRecord env (wrap k (withContainers res cs')))) = (obj3, rerr)"
  shows "runWorkload env opts k info =
     (if \<not> Local opts then
        (case rerr of
           Some err \<Rightarrow>
             (Return (Some err),
              [EvGet info, EvRecord (wrap k (withContainers res cs')),
               EvReplace info (fst (recorderRecord env (wrap k (withContainers res cs'))))])
         | None \<Rightarrow>
             (case PrintObj env obj3 of
                Some err \<Rightarrow>
                  (Return (Some (Error (errorString env err))),
                   [EvGet info, EvRecord (wrap k (withContainers res cs')),
                    EvReplace info (fst (recorderRecord env (wrap k (withContainers res cs')))),
                    EvPrint obj3])
              | None \<Rightarrow>
                  (Return (NewAggregate errs),
                   [EvGet info, EvRecord (wrap k (withContainers res cs')),
                    EvReplace info (fst (recorderRecord env (wrap k (withContainers res cs')))),
                    EvPrint obj3])))
      else
        (case PrintObj env (fst (recorderRecord env (wrap k (withContainers res cs')))) of
           Some err \<Rightarrow>
             (Return (Some (Error (errorString env err))),
              [EvGet info, EvRecord (wrap k (withContainers res cs')),
               EvPrint (fst (recorderRecord env (wrap k (withContainers res cs'))))])
         | None \<Rightarrow>
             (Return (NewAggregate errs),
              [EvGet info, EvRecord (wrap k (withContainers res cs')),
               EvPrint (fst (recorderRecord env (wrap k (withContainers res cs'))))])))"
  using assms
  by (simp add: runWorkload_def assertType_wrap Let_def split: option.splits)

lemmas example_set_defs =
  exampleSetOptions_def exampleSetEnv_def exampleInfo_def exampleWorkload_def exampleMeta_def
  flagsParsed_def entries_def containersOf_def

text \<open>
  Claim C2. The first resolved object is a CloneSet or a kruise StatefulSet (\<open>wrap k w\<close>),
  the server returns the object \<open>res\<close> of that kind, and the options are as
  \<^verbatim>\<open>Validate\<close> leaves them. Then for every container \<open>j\<close> of the pod template that the
  container selector matches, the object that \<^verbatim>\<open>Run\<close> has changed in memory (it is handed
  to the recorder) is \<open>res\<close> with new containers, where container \<open>j\<close> has every pair of
  the parsed limits in its \<open>Limits\<close> and every pair of the parsed requests in its
  \<open>Requests\<close>; the keys that the flags do not name have the values they had; and a map
  whose flag was given is allocated. The function that the default branch hands to
  \<^verbatim>\<open>UpdatePodSpecForObject\<close> (lines 376 to 399) makes the same containers of a pod spec
  that has these containers.
\<close>

theorem Run_writes_limits_and_requests:
  assumes "Infos opts = info # others" and "InfoObject info = wrap k w"
    and "helperGet env info = (wrap k res, None)" and "accessorName env (wrap k res) = None"
    and "flagsParsed opts"
    and "j < length (containersOf res)"
    and "selectString env (Name (containersOf res ! j)) (ContainerSelector opts)"
  shows "\<exists>cs'. recorded (snd (SetResourcesOptions_Run env opts)) = [wrap k (withContainers res cs')]
      \<and> length cs' = length (containersOf res)
      \<and> (\<forall>(key, value) \<in> set (entries (Limits (Requirements opts))).
            lookup_rl (Limits (Resources (cs' ! j))) key = Some value)
      \<and> (\<forall>(key, value) \<in> set (entries (Requests (Requirements opts))).
            lookup_rl (Requests (Resources (cs' ! j))) key = Some value)
      \<and> (\<forall>key. key \<notin> fst ` set (entries (Limits (Requirements opts))) \<longrightarrow>
            lookup_rl (Limits (Resources (cs' ! j))) key
              = lookup_rl (Limits (Resources (containersOf res ! j))) key)
      \<and> (\<forall>key. key \<notin> fst ` set (entries (Requests (Requirements opts))) \<longrightarrow>
            lookup_rl (Requests (Resources (cs' ! j))) key
              = lookup_rl (Requests (Resources (containersOf res ! j))) key)
      \<and> (LimitsFlag opts \<noteq> [] \<longrightarrow> Limits (Resources (cs' ! j)) \<noteq> None)
      \<and> (RequestsFlag opts \<noteq> [] \<longrightarrow> Requests (Resources (cs' ! j)) \<noteq> None)
      \<and> (\<forall>spec. Containers spec = containersOf res \<longrightarrow>
            podSpecMutator env opts spec = Inr (spec\<lparr>Containers := cs'\<rparr>, True, []))"
proof -
  let ?cs = "containersOf res"
  have ex: "\<exists>i < length ?cs. selectString env (Name (?cs ! i)) (ContainerSelector opts)"
    using assms(6,7) by blast
  from updateSelected_ok [OF assms(5), of env ?cs] obtain cs' where
    run0: "updateSelected env opts ?cs =
             Inr (cs', (\<exists>i < length ?cs. selectString env (Name (?cs ! i)) (ContainerSelector opts)),
                  if (\<exists>i < length ?cs. selectString env (Name (?cs ! i)) (ContainerSelector opts))
                  then [] else [errNoContainer (ContainerSelector opts)])"
    and len: "length cs' = length ?cs"
    and upd0: "\<forall>i < length ?cs.
                 (selectString env (Name (?cs ! i)) (ContainerSelector opts)
                    \<longrightarrow> setContainerResources opts (?cs ! i) = Inr (cs' ! i))
                 \<and> (\<not> selectString env (Name (?cs ! i)) (ContainerSelector opts) \<longrightarrow> cs' ! i = ?cs ! i)"
    by blast
  from run0 ex have run: "updateSelected env opts ?cs = Inr (cs', True, [])"
    by simp
  then have closure: "\<forall>spec. Containers spec = ?cs \<longrightarrow>
      podSpecMutator env opts spec = Inr (spec\<lparr>Containers := cs'\<rparr>, True, [])"
    by (simp add: podSpecMutator_def)
  from upd0 assms(6,7) have upd: "setContainerResources opts (?cs ! j) = Inr (cs' ! j)"
    by blast
  from setContainerResources_ok [OF assms(5), of "?cs ! j"] upd obtain lim req where
    c: "cs' ! j = (?cs ! j)\<lparr>Resources := (Resources (?cs ! j))\<lparr>Limits := lim, Requests := req\<rparr>\<rparr>"
    and lim: "\<forall>(k, v) \<in> set (entries (Limits (Requirements opts))). lookup_rl lim k = Some v"
      "\<forall>k. k \<notin> fst ` set (entries (Limits (Requirements opts)))
             \<longrightarrow> lookup_rl lim k = lookup_rl (Limits (Resources (?cs ! j))) k"
      "LimitsFlag opts \<noteq> [] \<longrightarrow> lim \<noteq> None"
    and req: "\<forall>(k, v) \<in> set (entries (Requests (Requirements opts))). lookup_rl req k = Some v"
      "\<forall>k. k \<notin> fst ` set (entries (Requests (Requirements opts)))
             \<longrightarrow> lookup_rl req k = lookup_rl (Requests (Resources (?cs ! j))) k"
      "RequestsFlag opts \<noteq> [] \<longrightarrow> req \<noteq> None"
    by auto
  have "recorded (snd (SetResourcesOptions_Run env opts)) = [wrap k (withContainers res cs')]"
    using Run_workload [OF assms(1,2)] runWorkload_transformed [OF assms(3,4) run] by simp
  with len c lim req closure show ?thesis
    by (intro exI [of _ cs']) simp
qed

theorem Run_writes_limits_and_requests_witness:
  "\<exists>cs'. recorded (snd (SetResourcesOptions_Run exampleSetEnv (exampleSetOptions ''nginx'')))
            = [CloneSet (withContainers exampleWorkload cs')]
      \<and> length cs' = 2
      \<and> lookup_rl (Limits (Resources (cs' ! 0))) ''cpu'' = Some ''200m''
      \<and> lookup_rl (Limits (Resources (cs' ! 0))) ''memory'' = Some ''128Mi''
      \<and> lookup_rl (Requests (Resources (cs' ! 0))) ''cpu'' = None
      \<and> podSpecMutator exampleSetEnv (exampleSetOptions ''nginx'')
            (TemplateSpec (Template (Spec exampleWorkload)))
          = Inr ((TemplateSpec (Template (Spec exampleWorkload)))\<lparr>Containers := cs'\<rparr>, True, [])"
proof -
  have h: "Infos (exampleSetOptions ''nginx'') = exampleInfo ''sample'' # [exampleInfo ''other'']"
    "InfoObject (exampleInfo ''sample'') = wrap KCloneSet exampleWorkload"
    "helperGet exampleSetEnv (exampleInfo ''sample'') = (wrap KCloneSet exampleWorkload, None)"
    "accessorName exampleSetEnv (wrap KCloneSet exampleWorkload) = None"
    "flagsParsed (exampleSetOptions ''nginx'')"
    "0 < length (containersOf exampleWorkload)"
    "selectString exampleSetEnv (Name (containersOf exampleWorkload ! 0))
       (ContainerSelector (exampleSetOptions ''nginx''))"
    by (simp_all add: example_set_defs)
  from Run_writes_limits_and_requests [OF h] obtain cs' where
    "recorded (snd (SetResourcesOptions_Run exampleSetEnv (exampleSetOptions ''nginx'')))
       = [wrap KCloneSet (withContainers exampleWorkload cs')]"
    "length cs' = length (containersOf exampleWorkload)"
    "\<forall>(key, value) \<in> set (entries (Limits (Requirements (exampleSetOptions ''nginx'')))).
        lookup_rl (Limits (Resources (cs' ! 0))) key = Some value"
    "\<forall>key. key \<notin> fst ` set (entries (Limits (Requirements (exampleSetOptions ''nginx'')))) \<longrightarrow>
        lookup_rl (Limits (Resources (cs' ! 0))) key
          = lookup_rl (Limits (Resources (containersOf exampleWorkload ! 0))) key"
    "\<forall>key. key \<notin> fst ` set (entries (Requests (Requirements (exampleSetOptions ''nginx'')))) \<longrightarrow>
        lookup_rl (Requests (Resources (cs' ! 0))) key
          = lookup_rl (Requests (Resources (containersOf exampleWorkload ! 0))) key"
    "\<forall>spec. Containers spec = containersOf exampleWorkload \<longrightarrow>
        podSpecMutator exampleSetEnv (exampleSetOptions ''nginx'') spec
          = Inr (spec\<lparr>Containers := cs'\<rparr>, True, [])"
    by blast
  then show ?thesis
    by (intro exI [of _ cs']) (simp add: example_set_defs lookup_rl_def)
qed

text \<open>
  Claim C6. Under the same conditions, when the selector matches a container, the object
  changed in memory is the fetched object with nothing but the list of containers of the
  pod template replaced; the new list has the same length, every container in it is the
  old one up to its \<open>Resources\<close>, and a container that the selector does not match is the
  old one. When the selector matches no container, nothing is changed, recorded, sent or
  printed.
\<close>

theorem Run_changes_only_selected_resources:
  assumes "Infos opts = info # others" and "InfoObject info = wrap k w"
    and "helperGet env info = (wrap k res, None)" and "accessorName env (wrap k res) = None"
    and "flagsParsed opts"
  shows "((\<exists>j < length (containersOf res).
              selectString env (Name (containersOf res ! j)) (ContainerSelector opts)) \<longrightarrow>
            (\<exists>cs'. recorded (snd (SetResourcesOptions_Run env opts)) =
                     [wrap k (res\<lparr>Spec := (Spec res)\<lparr>Template := (Template (Spec res))
                        \<lparr>TemplateSpec := (TemplateSpec (Template (Spec res)))\<lparr>Containers := cs'\<rparr>\<rparr>\<rparr>\<rparr>)]
                \<and> length cs' = length (containersOf res)
                \<and> (\<forall>j < length (containersOf res).
                      (\<exists>r. cs' ! j = (containersOf res ! j)\<lparr>Resources := r\<rparr>)
                      \<and> (\<not> selectString env (Name (containersOf res ! j)) (ContainerSelector opts)
                           \<longrightarrow> cs' ! j = containersOf res ! j))))
       \<and> (\<not> (\<exists>j < length (containersOf res).
              selectString env (Name (containersOf res ! j)) (ContainerSelector opts)) \<longrightarrow>
            SetResourcesOptions_Run env opts = (Return None, [EvGet info]))"
proof -
  let ?cs = "containersOf res"
  let ?sel = "\<lambda>j. selectString env (Name (?cs ! j)) (ContainerSelector opts)"
  from updateSelected_ok [OF assms(5), of env ?cs] obtain cs' errs where
    run: "updateSelected env opts ?cs = Inr (cs', (\<exists>j < length ?cs. ?sel j), errs)"
    and len: "length cs' = length ?cs"
    and upd: "\<forall>j < length ?cs. (?sel j \<longrightarrow> setContainerResources opts (?cs ! j) = Inr (cs' ! j))
                \<and> (\<not> ?sel j \<longrightarrow> cs' ! j = ?cs ! j)"
    by blast
  have frame: "\<exists>r. cs' ! j = (?cs ! j)\<lparr>Resources := r\<rparr>" if "j < length ?cs" for j
  proof (cases "?sel j")
    case True
    with upd that have "setContainerResources opts (?cs ! j) = Inr (cs' ! j)"
      by simp
    with setContainerResources_ok [OF assms(5), of "?cs ! j"] show ?thesis
      by auto
  next
    case False
    with upd that have "cs' ! j = (?cs ! j)\<lparr>Resources := Resources (?cs ! j)\<rparr>"
      by simp
    then show ?thesis
      by blast
  qed
  show ?thesis
  proof (cases "\<exists>j < length ?cs. ?sel j")
    case True
    with run have "recorded (snd (SetResourcesOptions_Run env opts)) = [wrap k (withContainers res cs')]"
      using Run_workload [OF assms(1,2)] runWorkload_transformed [OF assms(3,4), of opts cs' errs]
      by simp
    with True len upd frame show ?thesis
      by (auto simp: withContainers_def intro!: exI [of _ cs'])
  next
    case False
    with run have "SetResourcesOptions_Run env opts = (Return None, [EvGet info])"
      using Run_workload [OF assms(1,2)] runWorkload_not_transformed [OF assms(3,4), of opts cs' errs]
      by simp
    with False show ?thesis
      by simp
  qed
qed

theorem Run_changes_only_selected_resources_witness:
  "(\<exists>cs' r. recorded (snd (SetResourcesOptions_Run exampleSetEnv (exampleSetOptions ''nginx''))) =
              [CloneSet (exampleWorkload\<lparr>Spec := (Spec exampleWorkload)\<lparr>Template := (Template (Spec exampleWorkload))
                 \<lparr>TemplateSpec := (TemplateSpec (Template (Spec exampleWorkload)))\<lparr>Containers := cs'\<rparr>\<rparr>\<rparr>\<rparr>)]
      \<and> cs' ! 0 = (containersOf exampleWorkload ! 0)\<lparr>Resources := r\<rparr>
      \<and> cs' ! 1 = containersOf exampleWorkload ! 1)
   \<and> SetResourcesOptions_Run exampleSetEnv (exampleSetOptions ''absent'')
       = (Return None, [EvGet (exampleInfo ''sample'')])"
proof -
  have h: "Infos (exampleSetOptions spec) = exampleInfo ''sample'' # [exampleInfo ''other'']"
    "InfoObject (exampleInfo ''sample'') = wrap KCloneSet exampleWorkload"
    "helperGet exampleSetEnv (exampleInfo ''sample'') = (wrap KCloneSet exampleWorkload, None)"
    "accessorName exampleSetEnv (wrap KCloneSet exampleWorkload) = None"
    "flagsParsed (exampleSetOptions spec)" for spec
    by (simp_all add: example_set_defs)
  have len: "length (containersOf exampleWorkload) = 2"
    by (simp add: example_set_defs)
  have sel: "selectString exampleSetEnv (Name (containersOf exampleWorkload ! 0))
               (ContainerSelector (exampleSetOptions ''nginx''))"
    "\<not> selectString exampleSetEnv (Name (containersOf exampleWorkload ! 1))
               (ContainerSelector (exampleSetOptions ''nginx''))"
    by (simp_all add: example_set_defs)
  have none: "\<not> (\<exists>j < length (containersOf exampleWorkload).
                 selectString exampleSetEnv (Name (containersOf exampleWorkload ! j))
                   (ContainerSelector (exampleSetOptions ''absent'')))"
  proof
    assume "\<exists>j < length (containersOf exampleWorkload).
              selectString exampleSetEnv (Name (containersOf exampleWorkload ! j))
                (ContainerSelector (exampleSetOptions ''absent''))"
    then obtain j where j: "j < 2"
      "selectString exampleSetEnv (Name (containersOf exampleWorkload ! j))
         (ContainerSelector (exampleSetOptions ''absent''))"
      using len by auto
    from j(1) have "j = 0 \<or> j = 1"
      by auto
    with j(2) show False
      by (auto simp: example_set_defs)
  qed
  from Run_changes_only_selected_resources [OF h, of "''nginx''"] sel(1) len
  obtain cs' where
    rec: "recorded (snd (SetResourcesOptions_Run exampleSetEnv (exampleSetOptions ''nginx''))) =
              [wrap KCloneSet (exampleWorkload\<lparr>Spec := (Spec exampleWorkload)\<lparr>Template := (Template (Spec exampleWorkload))
                 \<lparr>TemplateSpec := (TemplateSpec (Template (Spec exampleWorkload)))\<lparr>Containers := cs'\<rparr>\<rparr>\<rparr>\<rparr>)]"
    and fr: "\<forall>j < length (containersOf exampleWorkload).
                (\<exists>r. cs' ! j = (containersOf exampleWorkload ! j)\<lparr>Resources := r\<rparr>)
                \<and> (\<not> selectString exampleSetEnv (Name (containersOf exampleWorkload ! j))
                        (ContainerSelector (exampleSetOptions ''nginx''))
                     \<longrightarrow> cs' ! j = containersOf exampleWorkload ! j)"
    by (metis zero_less_numeral)
  from fr len obtain r where "cs' ! 0 = (containersOf exampleWorkload ! 0)\<lparr>Resources := r\<rparr>"
    by (metis zero_less_numeral)
  moreover from fr len sel(2) have "cs' ! 1 = containersOf exampleWorkload ! 1"
    by (metis one_less_numeral_iff semiring_norm(76))
  moreover from Run_changes_only_selected_resources [OF h, of "''absent''"] none
  have "SetResourcesOptions_Run exampleSetEnv (exampleSetOptions ''absent'')
          = (Return None, [EvGet (exampleInfo ''sample'')])"
    by blast
  ultimately show ?thesis
    using rec by auto
qed

text \<open>
  Claim C9. With an empty list of resolved objects \<^verbatim>\<open>Run\<close> returns nil and does nothing.
  When the first object is a CloneSet or a kruise StatefulSet, the run is the run on that
  object alone: the result and the events are the same with the other objects removed,
  the one read of the server is for the first object, and there is at most one update,
  for the first object, and at most one print. When the server returns the object, the
  options are as \<^verbatim>\<open>Validate\<close> leaves them and the selector matches a container, the run
  is exactly: the read for the first object, the recorder on the object with the updated
  containers, then (unless \<^verbatim>\<open>--local\<close>) the update of the server for the first object
  with the object as the recorder leaves it, then the print of the object as the update
  leaves it, and the result nil; an error of the update is returned before any print, and
  an error of the print is returned with its message.
\<close>

theorem Run_handles_first_object_only:
  "(Infos opts = [] \<longrightarrow> SetResourcesOptions_Run env opts = (Return None, []))
   \<and> (Infos opts = info # others \<and> InfoObject info = wrap k w \<longrightarrow>
        SetResourcesOptions_Run env opts = SetResourcesOptions_Run env (opts\<lparr>Infos := [info]\<rparr>)
        \<and> fetched (snd (SetResourcesOptions_Run env opts)) = [info]
        \<and> set (map fst (replaced (snd (SetResourcesOptions_Run env opts)))) \<subseteq> {info}
        \<and> length (replaced (snd (SetResourcesOptions_Run env opts))) \<le> 1
        \<and> length (printed (snd (SetResourcesOptions_Run env opts))) \<le> 1)
   \<and> (Infos opts = info # others \<and> InfoObject info = wrap k w
        \<and> helperGet env info = (wrap k res, None) \<and> accessorName env (wrap k res) = None
        \<and> flagsParsed opts
        \<and> (\<exists>j < length (containersOf res).
              selectString env (Name (containersOf res ! j)) (ContainerSelector opts)) \<longrightarrow>
        (\<exists>cs' obj1 obj2 obj3 rerr.
            updateSelected env opts (containersOf res) = Inr (cs', True, [])
          \<and> obj1 = wrap k (withContainers res cs')
          \<and> obj2 = fst (recorderRecord env obj1)
          \<and> helperReplace env info obj2 = (obj3, rerr)
          \<and> (\<not> Local opts \<and> rerr = None \<and> PrintObj env obj3 = None \<longrightarrow>
                SetResourcesOptions_Run env opts =
                  (Return None, [EvGet info, EvRecord obj1, EvReplace info obj2, EvPrint obj3]))
          \<and> (\<forall>err. \<not> Local opts \<and> rerr = None \<and> PrintObj env obj3 = Some err \<longrightarrow>
                SetResourcesOptions_Run env opts =
                  (Return (Some (Error (errorString env err))),
                   [EvGet info, EvRecord obj1, EvReplace info obj2, EvPrint obj3]))
          \<and> (\<forall>err. \<not> Local opts \<and> rerr = Some err \<longrightarrow>
                SetResourcesOptions_Run env opts =
                  (Return (Some err), [EvGet info, EvRecord obj1, EvReplace info obj2]))
          \<and> (Local opts \<and> PrintObj env obj2 = None \<longrightarrow>
                SetResourcesOptions_Run env opts =
                  (Return None, [EvGet info, EvRecord obj1, EvPrint obj2]))
          \<and> (\<forall>err. Local opts \<and> PrintObj env obj2 = Some err \<longrightarrow>
                SetResourcesOptions_Run env opts =
                  (Return (Some (Error (errorString env err))),
                   [EvGet info, EvRecord obj1, EvPrint obj2]))))"
proof (intro conjI impI)
  assume "Infos opts = []"
  then show "SetResourcesOptions_Run env opts = (Return None, [])"
    by (simp add: SetResourcesOptions_Run_def)
next
  assume a: "Infos opts = info # others \<and> InfoObject info = wrap k w"
  then have run: "SetResourcesOptions_Run env opts = runWorkload env opts k info"
    using Run_workload by blast
  have "SetResourcesOptions_Run env (opts\<lparr>Infos := [info]\<rparr>) = runWorkload env (opts\<lparr>Infos := [info]\<rparr>) k info"
    using a Run_workload [of "opts\<lparr>Infos := [info]\<rparr>" info "[]" k w env] by simp
  with run show "SetResourcesOptions_Run env opts = SetResourcesOptions_Run env (opts\<lparr>Infos := [info]\<rparr>)"
    by (simp add: runWorkload_Infos)
  from run show "fetched (snd (SetResourcesOptions_Run env opts)) = [info]"
    and "set (map fst (replaced (snd (SetResourcesOptions_Run env opts)))) \<subseteq> {info}"
    and "length (replaced (snd (SetResourcesOptions_Run env opts))) \<le> 1"
    and "length (printed (snd (SetResourcesOptions_Run env opts))) \<le> 1"
    using runWorkload_events [of env opts k info] by simp_all
next
  let ?cs = "containersOf res"
  assume a: "Infos opts = info # others \<and> InfoObject info = wrap k w
        \<and> helperGet env info = (wrap k res, None) \<and> accessorName env (wrap k res) = None
        \<and> flagsParsed opts
        \<and> (\<exists>j < length ?cs. selectString env (Name (?cs ! j)) (ContainerSelector opts))"
  then have run: "SetResourcesOptions_Run env opts = runWorkload env opts k info"
    using Run_workload by blast
  from a have fp: "flagsParsed opts"
    by simp
  from updateSelected_ok [OF fp, of env ?cs] obtain cs' where
    "updateSelected env opts ?cs =
       Inr (cs', (\<exists>i < length ?cs. selectString env (Name (?cs ! i)) (ContainerSelector opts)),
            if (\<exists>i < length ?cs. selectString env (Name (?cs ! i)) (ContainerSelector opts))
            then [] else [errNoContainer (ContainerSelector opts)])"
    by blast
  with a have upd: "updateSelected env opts ?cs = Inr (cs', True, [])"
    by simp
  obtain obj3 rerr where
    rep: "helperReplace env info (fst (recorderRecord env (wrap k (withContainers res cs')))) = (obj3, rerr)"
    by (cases "helperReplace env info (fst (recorderRecord env (wrap k (withContainers res cs'))))")
  from a have get: "helperGet env info = (wrap k res, None)" and acc: "accessorName env (wrap k res) = None"
    by simp_all
  note full = runWorkload_after_update [OF get acc upd rep]
  show "\<exists>cs' obj1 obj2 obj3 rerr.
            updateSelected env opts ?cs = Inr (cs', True, [])
          \<and> obj1 = wrap k (withContainers res cs')
          \<and> obj2 = fst (recorderRecord env obj1)
          \<and> helperReplace env info obj2 = (obj3, rerr)
          \<and> (\<not> Local opts \<and> rerr = None \<and> PrintObj env obj3 = None \<longrightarrow>
                SetResourcesOptions_Run env opts =
                  (Return None, [EvGet info, EvRecord obj1, EvReplace info obj2, EvPrint obj3]))
          \<and> (\<forall>err. \<not> Local opts \<and> rerr = None \<and> PrintObj env obj3 = Some err \<longrightarrow>
                SetResourcesOptions_Run env opts =
                  (Return (Some (Error (errorString env err))),
                   [EvGet info, EvRecord obj1, EvReplace info obj2, EvPrint obj3]))
          \<and> (\<forall>err. \<not> Local opts \<and> rerr = Some err \<longrightarrow>
                SetResourcesOptions_Run env opts =
                  (Return (Some err), [EvGet info, EvRecord obj1, EvReplace info obj2]))
          \<and> (Local opts \<and> PrintObj env obj2 = None \<longrightarrow>
                SetResourcesOptions_Run env opts =
                  (Return None, [EvGet info, EvRecord obj1, EvPrint obj2]))
          \<and> (\<forall>err. Local opts \<and> PrintObj env obj2 = Some err \<longrightarrow>
                SetResourcesOptions_Run env opts =
                  (Return (Some (Error (errorString env err))),
                   [EvGet info, EvRecord obj1, EvPrint obj2]))"
    apply (rule exI [of _ cs'])
    apply (rule exI [of _ "wrap k (withContainers res cs')"])
    apply (rule exI [of _ "fst (recorderRecord env (wrap k (withContainers res cs')))"])
    apply (rule exI [of _ obj3])
    apply (rule exI [of _ rerr])
    using upd rep
    by (simp add: run full NewAggregate_def)
qed

theorem Run_handles_first_object_only_witness:
  "SetResourcesOptions_Run exampleSetEnv ((exampleSetOptions ''*'')\<lparr>Infos := []\<rparr>) = (Return None, [])
   \<and> SetResourcesOptions_Run exampleSetEnv (exampleSetOptions ''*'')
       = SetResourcesOptions_Run exampleSetEnv ((exampleSetOptions ''*'')\<lparr>Infos := [exampleInfo ''sample'']\<rparr>)
   \<and> fetched (snd (SetResourcesOptions_Run exampleSetEnv (exampleSetOptions ''*''))) = [exampleInfo ''sample'']
   \<and> (\<exists>cs'. updateSelected exampleSetEnv (exampleSetOptions ''*'') (containersOf exampleWorkload)
                = Inr (cs', True, [])
          \<and> SetResourcesOptions_Run exampleSetEnv (exampleSetOptions ''*'') =
              (Return None,
               [EvGet (exampleInfo ''sample''),
                EvRecord (CloneSet (withContainers exampleWorkload cs')),
                EvReplace (exampleInfo ''sample'') (CloneSet (withContainers exampleWorkload cs')),
                EvPrint (CloneSet (withContainers exampleWorkload cs'))]))"
proof -
  have e: "Infos ((exampleSetOptions ''*'')\<lparr>Infos := []\<rparr>) = []"
    by simp
  have h: "Infos (exampleSetOptions ''*'') = exampleInfo ''sample'' # [exampleInfo ''other'']
           \<and> InfoObject (exampleInfo ''sample'') = wrap KCloneSet exampleWorkload"
    by (simp add: exampleSetOptions_def exampleInfo_def)
  have g: "helperGet exampleSetEnv (exampleInfo ''sample'') = (wrap KCloneSet exampleWorkload, None)
           \<and> accessorName exampleSetEnv (wrap KCloneSet exampleWorkload) = None
           \<and> flagsParsed (exampleSetOptions ''*'')
           \<and> (\<exists>j < length (containersOf exampleWorkload).
                 selectString exampleSetEnv (Name (containersOf exampleWorkload ! j))
                   (ContainerSelector (exampleSetOptions ''*'')))"
    by (auto simp: example_set_defs)
  have env: "\<not> Local (exampleSetOptions ''*'')" "\<And>obj. recorderRecord exampleSetEnv obj = (obj, None)"
    "\<And>info obj. helperReplace exampleSetEnv info obj = (obj, None)"
    "\<And>obj. PrintObj exampleSetEnv obj = None"
    by (simp_all add: exampleSetOptions_def exampleSetEnv_def)
  from e Run_handles_first_object_only [of "(exampleSetOptions ''*'')\<lparr>Infos := []\<rparr>" exampleSetEnv]
  have 1: "SetResourcesOptions_Run exampleSetEnv ((exampleSetOptions ''*'')\<lparr>Infos := []\<rparr>) = (Return None, [])"
    by blast
  note inst = Run_handles_first_object_only
          [of "exampleSetOptions ''*''" exampleSetEnv "exampleInfo ''sample''" "[exampleInfo ''other'']"
              KCloneSet exampleWorkload exampleWorkload]
  from h inst
  have 2: "SetResourcesOptions_Run exampleSetEnv (exampleSetOptions ''*'')
       = SetResourcesOptions_Run exampleSetEnv ((exampleSetOptions ''*'')\<lparr>Infos := [exampleInfo ''sample'']\<rparr>)
   \<and> fetched (snd (SetResourcesOptions_Run exampleSetEnv (exampleSetOptions ''*''))) = [exampleInfo ''sample'']"
    by blast
  from h g inst obtain cs' obj1 obj2 obj3 rerr where
    u: "updateSelected exampleSetEnv (exampleSetOptions ''*'') (containersOf exampleWorkload)
          = Inr (cs', True, [])"
    and o: "obj1 = wrap KCloneSet (withContainers exampleWorkload cs')"
      "obj2 = fst (recorderRecord exampleSetEnv obj1)"
      "helperReplace exampleSetEnv (exampleInfo ''sample'') obj2 = (obj3, rerr)"
    and r: "\<not> Local (exampleSetOptions ''*'') \<and> rerr = None \<and> PrintObj exampleSetEnv obj3 = None \<longrightarrow>
              SetResourcesOptions_Run exampleSetEnv (exampleSetOptions ''*'') =
                (Return None,
                 [EvGet (exampleInfo ''sample''), EvRecord obj1,
                  EvReplace (exampleInfo ''sample'') obj2, EvPrint obj3])"
    by blast
  from o env have "obj2 = obj1" "obj3 = obj1" "rerr = None"
    by simp_all
  with r env o(1) have "SetResourcesOptions_Run exampleSetEnv (exampleSetOptions ''*'') =
              (Return None,
               [EvGet (exampleInfo ''sample''),
                EvRecord (CloneSet (withContainers exampleWorkload cs')),
                EvReplace (exampleInfo ''sample'') (CloneSet (withContainers exampleWorkload cs')),
                EvPrint (CloneSet (withContainers exampleWorkload cs'))])"
    by simp
  with 1 2 u show ?thesis
    by blast
qed

text \<open>
  Claim C10. In the branch of a CloneSet or a kruise StatefulSet, when the selector matches
  no container of the fetched object, \<^verbatim>\<open>Run\<close> returns nil after the read of the server:
  no update is sent and nothing is printed, and the error
  \<open>unable to find container named ...\<close> that the update of the containers has
  accumulated is not part of the result.
\<close>

theorem Run_no_matching_container:
  assumes "Infos opts = info # others" and "InfoObject info = wrap k w"
    and "helperGet env info = (wrap k res, None)" and "accessorName env (wrap k res) = None"
    and "\<forall>c \<in> set (containersOf res). \<not> selectString env (Name c) (ContainerSelector opts)"
  shows "SetResourcesOptions_Run env opts = (Return None, [EvGet info])
      \<and> replaced (snd (SetResourcesOptions_Run env opts)) = []
      \<and> printed (snd (SetResourcesOptions_Run env opts)) = []
      \<and> updateSelected env opts (containersOf res) =
          Inr (containersOf res, False,
               [Error (''error: unable to find container named '' @ ContainerSelector opts)])"
proof -
  have "filter (\<lambda>i. selectString env (Name (containersOf res ! i)) (ContainerSelector opts))
          [0..<length (containersOf res)] = []"
    using assms(5) by (simp add: filter_empty_conv)
  then have u: "updateSelected env opts (containersOf res) =
          Inr (containersOf res, False,
               [Error (''error: unable to find container named '' @ ContainerSelector opts)])"
    by (simp add: updateSelected_def selectContainers_def errNoContainer_def)
  have "SetResourcesOptions_Run env opts = (Return None, [EvGet info])"
    using Run_workload [OF assms(1,2)] runWorkload_not_transformed [OF assms(3,4) u] by simp
  with u show ?thesis
    by simp
qed

theorem Run_no_matching_container_witness:
  "SetResourcesOptions_Run exampleSetEnv (exampleSetOptions ''absent'')
     = (Return None, [EvGet (exampleInfo ''sample'')])
   \<and> replaced (snd (SetResourcesOptions_Run exampleSetEnv (exampleSetOptions ''absent''))) = []
   \<and> printed (snd (SetResourcesOptions_Run exampleSetEnv (exampleSetOptions ''absent''))) = []
   \<and> updateSelected exampleSetEnv (exampleSetOptions ''absent'') (containersOf exampleWorkload) =
       Inr (containersOf exampleWorkload, False,
            [Error ''error: unable to find container named absent''])"
proof -
  have h: "Infos (exampleSetOptions ''absent'') = exampleInfo ''sample'' # [exampleInfo ''other'']"
    "InfoObject (exampleInfo ''sample'') = wrap KCloneSet exampleWorkload"
    "helperGet exampleSetEnv (exampleInfo ''sample'') = (wrap KCloneSet exampleWorkload, None)"
    "accessorName exampleSetEnv (wrap KCloneSet exampleWorkload) = None"
    "\<forall>c \<in> set (containersOf exampleWorkload).
        \<not> selectString exampleSetEnv (Name c) (ContainerSelector (exampleSetOptions ''absent''))"
    by (simp_all add: example_set_defs)
  from Run_no_matching_container [OF h] show ?thesis
    by (simp add: exampleSetOptions_def)
qed

section \<open>exec: Validate\<close>

text \<open>
  Claim C7. \<^verbatim>\<open>Validate\<close> of \<^verbatim>\<open>exec\<close> returns an error exactly when the pod name, the
  resource name and the list of file names are all empty, or the command is empty, or the
  output stream or the error stream is nil.
\<close>

theorem ExecOptions_Validate_error_iff:
  "(ExecOptions_Validate p \<noteq> None) =
     ((PodName p = [] \<and> ResourceName p = [] \<and> Filenames p = [])
      \<or> Command p = []
      \<or> Out p = None \<or> ErrOut p = None)"
  by (auto simp: ExecOptions_Validate_def)

theorem ExecOptions_Validate_error_iff_witness:
  "ExecOptions_Validate (exampleExecOptions '''' '''' False False) = None
   \<and> ExecOptions_Validate ((exampleExecOptions '''' '''' False False)\<lparr>PodName := ''''\<rparr>)
       = Some (Error ''pod, type/name or --filename must be specified'')
   \<and> ExecOptions_Validate ((exampleExecOptions '''' '''' False False)\<lparr>Command := []\<rparr>)
       = Some (Error ''you must specify at least one command for the container'')
   \<and> ExecOptions_Validate ((exampleExecOptions '''' '''' False False)\<lparr>ErrOut := None\<rparr>)
       = Some (Error ''both output and error output must be provided'')"
  using ExecOptions_Validate_error_iff [of "exampleExecOptions '''' '''' False False"]
        ExecOptions_Validate_error_iff [of "(exampleExecOptions '''' '''' False False)\<lparr>PodName := ''''\<rparr>"]
        ExecOptions_Validate_error_iff [of "(exampleExecOptions '''' '''' False False)\<lparr>Command := []\<rparr>"]
        ExecOptions_Validate_error_iff [of "(exampleExecOptions '''' '''' False False)\<lparr>ErrOut := None\<rparr>"]
  by (simp add: ExecOptions_Validate_def exampleExecOptions_def)

section \<open>exec: Run and SetupTTY\<close>

lemma executeCalls_append: "executeCalls (xs @ ys) = executeCalls xs @ executeCalls ys"
  by (induction xs rule: executeCalls.induct) auto

lemma monitorCalls_append: "monitorCalls (xs @ ys) = monitorCalls xs @ monitorCalls ys"
  by (induction xs rule: monitorCalls.induct) auto

lemma FprintfAll_Some: "FprintfAll (Some w) msgs = Inr (map (Fprint w) msgs)"
  by (induction msgs) (auto simp: Fprintf_def)

lemma executeCalls_Fprint: "executeCalls (map (Fprint w) msgs) = []"
  by (induction msgs) auto

lemma monitorCalls_Fprint: "monitorCalls (map (Fprint w) msgs) = []"
  by (induction msgs) auto

lemma getPod_cases:
  "getPod env p0 = (p, e) \<Longrightarrow> p = p0 \<or> (\<exists>pod. p = p0\<lparr>ExecPod := pod\<rparr>)"
  by (auto simp: getPod_def split: if_splits prod.splits option.splits)

lemma chooseContainer_valid:
  assumes "ErrOut p = Some w"
  shows "case containerPrecedence (GetPodHotUpgradeInfoInAnnotations env pod (SidecarSetContainer p))
                (ContainerName p) (Containers (PodSpecOf pod)) of
           None \<Rightarrow> chooseContainer env p pod = Inl ''index out of range [0] with length 0''
         | Some n \<Rightarrow>
             (\<exists>evs. executeCalls evs = [] \<and> monitorCalls evs = [] \<and>
                    chooseContainer env p pod = Inr (n, evs))"
  using assms
  by (auto simp: chooseContainer_def containerPrecedence_def Fprintf_def FprintfAll_Some
                 executeCalls_Fprint monitorCalls_Fprint executeCalls_append monitorCalls_append
           split: option.splits list.splits)

lemma SetupTTY_Raw:
  "Raw (fst (StreamOptions_SetupTTY env opts)) = (Stdin opts \<and> TTY opts \<and> inputIsTerminal env opts)"
  by (auto simp: StreamOptions_SetupTTY_def inputIsTerminal_def Let_def split: option.splits)

lemma SetupTTY_events:
  "executeCalls (snd (snd (StreamOptions_SetupTTY env opts))) = []
   \<and> monitorCalls (snd (snd (StreamOptions_SetupTTY env opts))) = []"
  by (auto simp: StreamOptions_SetupTTY_def Let_def split: option.splits)

lemma SetupTTY_ErrOut:
  "ErrOut (fst (snd (StreamOptions_SetupTTY env opts))) = ErrOut opts"
  by (auto simp: StreamOptions_SetupTTY_def Let_def split: option.splits)

lemma SetupTTY_no_stdin:
  "\<not> Stdin opts \<Longrightarrow> In (fst (snd (StreamOptions_SetupTTY env opts))) = None
     \<and> TTY (fst (snd (StreamOptions_SetupTTY env opts))) = False
     \<and> Raw (fst (StreamOptions_SetupTTY env opts)) = False"
  by (auto simp: StreamOptions_SetupTTY_def Let_def split: option.splits)


lemma Validate_streams:
  "ExecOptions_Validate p = None \<Longrightarrow> \<exists>w. ErrOut p = Some w"
  by (auto simp: ExecOptions_Validate_def split: if_splits)

lemma getPod_fields:
  assumes "getPod env p0 = (p, e)"
  shows "ErrOut p = ErrOut p0 \<and> SidecarSetContainer p = SidecarSetContainer p0
         \<and> ContainerName p = ContainerName p0 \<and> Stdin p = Stdin p0 \<and> TTY p = TTY p0
         \<and> inputIsTerminal env p = inputIsTerminal env p0"
  using getPod_cases [OF assms] by (auto simp: inputIsTerminal_def)

lemma Run_after_check:
  assumes "getPod env p0 = (p, None)" and "ExecPod p = Some pod"
    and "Phase pod \<noteq> PodSucceeded" and "Phase pod \<noteq> PodFailed"
    and "chooseContainer env p pod = Inr (n, evs)"
  shows "ExecOptions_Run env p0 =
           (let t = fst (StreamOptions_SetupTTY env p);
                p1 = fst (snd (StreamOptions_SetupTTY env p));
                evs1 = snd (snd (StreamOptions_SetupTTY env p));
                p2 = (if Raw t then p1\<lparr>ErrOut := None\<rparr> else p1);
                evs2 = evs @ evs1 @ (if Raw t then [MonitorSize t] else [])
            in case SafeSetup env t of
                 Some err \<Rightarrow> (Return (Some err), p2, evs2)
               | None \<Rightarrow>
                   (case RESTClientFor env of
                      Some err \<Rightarrow> (Return (Some err), p2, evs2)
                    | None \<Rightarrow>
                        (Return (ExecutorExecute env (execCall p2 pod n t (Raw t))), p2,
                         evs2 @ [Execute (execCall p2 pod n t (Raw t))])))"
  using assms
  by (cases "StreamOptions_SetupTTY env p")
     (simp add: ExecOptions_Run_def Let_def split: option.splits)

lemma Run_executes_once:
  assumes "ExecOptions_Validate p0 = None"
    and "getPod env p0 = (p, None)" and "ExecPod p = Some pod"
    and "Phase pod \<noteq> PodSucceeded" and "Phase pod \<noteq> PodFailed"
    and "\<forall>t. SafeSetup env t = None" and "RESTClientFor env = None"
    and "containerPrecedence (GetPodHotUpgradeInfoInAnnotations env pod (SidecarSetContainer p0))
           (ContainerName p0) (Containers (PodSpecOf pod)) = Some n"
  shows "executeCalls (snd (snd (ExecOptions_Run env p0))) =
           [execCall (fst (snd (ExecOptions_Run env p0))) pod n (fst (StreamOptions_SetupTTY env p))
              (Raw (fst (StreamOptions_SetupTTY env p)))]"
proof -
  from assms(1) obtain w where "ErrOut p0 = Some w"
    using Validate_streams by blast
  with assms(2) have w: "ErrOut p = Some w"
    by (simp add: getPod_fields)
  have same: "SidecarSetContainer p = SidecarSetContainer p0" "ContainerName p = ContainerName p0"
    using assms(2) by (simp_all add: getPod_fields)
  from assms(8) chooseContainer_valid [OF w, of env pod] same
  obtain evs where evs: "executeCalls evs = []" "chooseContainer env p pod = Inr (n, evs)"
    by auto
  show ?thesis
    using assms(6,7) evs(1) SetupTTY_events [of env p]
    by (simp add: Run_after_check [OF assms(2-5) evs(2)] Let_def executeCalls_append)
qed

lemma Run_index_panic:
  assumes "ExecOptions_Validate p0 = None"
    and "getPod env p0 = (p, None)" and "ExecPod p = Some pod"
    and "Phase pod \<noteq> PodSucceeded" and "Phase pod \<noteq> PodFailed"
    and "containerPrecedence (GetPodHotUpgradeInfoInAnnotations env pod (SidecarSetContainer p0))
           (ContainerName p0) (Containers (PodSpecOf pod)) = None"
  shows "ExecOptions_Run env p0 = (Panic ''index out of range [0] with length 0'', p, [])"
proof -
  from assms(1) obtain w where "ErrOut p0 = Some w"
    using Validate_streams by blast
  with assms(2) have w: "ErrOut p = Some w"
    by (simp add: getPod_fields)
  have same: "SidecarSetContainer p = SidecarSetContainer p0" "ContainerName p = ContainerName p0"
    using assms(2) by (simp_all add: getPod_fields)
  from assms(6) chooseContainer_valid [OF w, of env pod] same
  have "chooseContainer env p pod = Inl ''index out of range [0] with length 0''"
    by simp
  with assms show ?thesis
    by (simp add: ExecOptions_Run_def)
qed

lemma FprintfAll_events:
  "FprintfAll w msgs = Inr evs \<Longrightarrow> executeCalls evs = [] \<and> monitorCalls evs = []"
  by (cases w; cases msgs)
     (auto simp: FprintfAll_Some executeCalls_Fprint monitorCalls_Fprint Fprintf_def)

lemma chooseContainer_events:
  assumes "chooseContainer env p pod = Inr (n, evs)"
  shows "executeCalls evs = [] \<and> monitorCalls evs = []"
  using assms
  by (auto simp: chooseContainer_def Fprintf_def executeCalls_append monitorCalls_append
           dest!: FprintfAll_events
           split: option.splits if_splits sum.splits list.splits)

lemma Run_monitor_and_stderr:
  "(monitorCalls (snd (snd (ExecOptions_Run env p0))) \<noteq> []
      \<longrightarrow> Stdin p0 \<and> TTY p0 \<and> inputIsTerminal env p0)
   \<and> (ErrOut (fst (snd (ExecOptions_Run env p0))) \<noteq> ErrOut p0
      \<longrightarrow> Stdin p0 \<and> TTY p0 \<and> inputIsTerminal env p0)"
proof -
  obtain p e where g: "getPod env p0 = (p, e)"
    by (cases "getPod env p0")
  note f = getPod_fields [OF g]
  show ?thesis
  proof (cases "e = None \<and> (\<exists>pod n evs. ExecPod p = Some pod \<and> Phase pod \<noteq> PodSucceeded
                  \<and> Phase pod \<noteq> PodFailed \<and> chooseContainer env p pod = Inr (n, evs))")
    case True
    then obtain pod n evs where r: "getPod env p0 = (p, None)" "ExecPod p = Some pod"
        "Phase pod \<noteq> PodSucceeded" "Phase pod \<noteq> PodFailed" "chooseContainer env p pod = Inr (n, evs)"
      using g by auto
    have m: "monitorCalls evs = []"
      using chooseContainer_events [OF r(5)] by simp
    show ?thesis
      using f m SetupTTY_events [of env p] SetupTTY_Raw [of env p] SetupTTY_ErrOut [of env p]
      by (auto simp: Run_after_check [OF r] Let_def monitorCalls_append split: option.splits if_splits)
  next
    case False
    then have "monitorCalls (snd (snd (ExecOptions_Run env p0))) = []
               \<and> ErrOut (fst (snd (ExecOptions_Run env p0))) = ErrOut p0"
      using g f
      by (auto simp: ExecOptions_Run_def split: option.splits sum.splits)
    then show ?thesis
      by simp
  qed
qed

lemmas example_exec_defs =
  exampleExecOptions_def exampleExecEnv_def examplePod_def exampleContainer_def
  ExecOptions_Validate_def getPod_def PodSucceeded_def PodFailed_def containerPrecedence_def

text \<open>
  Claim C4, as amended. The options are validated, the pod is resolved and not completed,
  and the terminal and the REST client can be set up, so that \<^verbatim>\<open>Run\<close> gets as far as the
  request. Then exactly one request is made, and its container is chosen by
  \<open>containerPrecedence\<close>: the working container that the hot-upgrade annotations give
  for the \<^verbatim>\<open>-S\<close> name when that name is not empty; the first container of the pod when it
  is empty; without a working container the \<^verbatim>\<open>-c\<close> name when it is not empty, and the
  first container of the pod otherwise. Where the first container is needed and the pod
  has none, \<^verbatim>\<open>Run\<close> panics on the index and makes no request.
\<close>

theorem ExecOptions_Run_container_name:
  assumes "ExecOptions_Validate p0 = None"
    and "getPod env p0 = (p, None)" and "ExecPod p = Some pod"
    and "Phase pod \<noteq> PodSucceeded" and "Phase pod \<noteq> PodFailed"
    and "\<forall>t. SafeSetup env t = None" and "RESTClientFor env = None"
  shows "case containerPrecedence (GetPodHotUpgradeInfoInAnnotations env pod (SidecarSetContainer p0))
                (ContainerName p0) (Containers (PodSpecOf pod)) of
           Some n \<Rightarrow> map (\<lambda>c. Container (Params c)) (executeCalls (snd (snd (ExecOptions_Run env p0)))) = [n]
         | None \<Rightarrow> fst (ExecOptions_Run env p0) = Panic ''index out of range [0] with length 0''
                   \<and> executeCalls (snd (snd (ExecOptions_Run env p0))) = []"
proof (cases "containerPrecedence (GetPodHotUpgradeInfoInAnnotations env pod (SidecarSetContainer p0))
                (ContainerName p0) (Containers (PodSpecOf pod))")
  case None
  with Run_index_panic [OF assms(1-5)] show ?thesis
    by simp
next
  case (Some n)
  with Run_executes_once [OF assms] show ?thesis
    by (simp add: execCall_def)
qed

text \<open>A working container, a \<^verbatim>\<open>-c\<close> name, and the default.\<close>

theorem ExecOptions_Run_container_name_witness:
  "map (\<lambda>c. Container (Params c)) (executeCalls (snd (snd (ExecOptions_Run
      (exampleExecEnv (examplePod ''Running'') [''mesh'' \<mapsto> ''mesh-2''] False)
      (exampleExecOptions '''' ''mesh'' False False))))) = [''mesh-2'']
   \<and> map (\<lambda>c. Container (Params c)) (executeCalls (snd (snd (ExecOptions_Run
      (exampleExecEnv (examplePod ''Running'') Map.empty False)
      (exampleExecOptions ''mesh-1'' ''mesh'' False False))))) = [''mesh-1'']
   \<and> map (\<lambda>c. Container (Params c)) (executeCalls (snd (snd (ExecOptions_Run
      (exampleExecEnv (examplePod ''Running'') Map.empty False)
      (exampleExecOptions '''' '''' False False))))) = [''main'']"
  using ExecOptions_Run_container_name
          [of "exampleExecOptions '''' ''mesh'' False False"
              "exampleExecEnv (examplePod ''Running'') [''mesh'' \<mapsto> ''mesh-2''] False"
              "(exampleExecOptions '''' ''mesh'' False False)\<lparr>ExecPod := Some (examplePod ''Running'')\<rparr>"
              "examplePod ''Running''"]
        ExecOptions_Run_container_name
          [of "exampleExecOptions ''mesh-1'' ''mesh'' False False"
              "exampleExecEnv (examplePod ''Running'') Map.empty False"
              "(exampleExecOptions ''mesh-1'' ''mesh'' False False)\<lparr>ExecPod := Some (examplePod ''Running'')\<rparr>"
              "examplePod ''Running''"]
        ExecOptions_Run_container_name
          [of "exampleExecOptions '''' '''' False False"
              "exampleExecEnv (examplePod ''Running'') Map.empty False"
              "(exampleExecOptions '''' '''' False False)\<lparr>ExecPod := Some (examplePod ''Running'')\<rparr>"
              "examplePod ''Running''"]
  by (simp add: example_exec_defs)

text \<open>
  Claim C4 as first stated lets any working container win. The annotations map the sidecar
  \<open>mesh\<close> to the empty name and \<^verbatim>\<open>-c mesh-1\<close> is given: the request names neither the
  working container (the empty name) nor \<open>mesh-1\<close>, but the first container \<open>main\<close>.
\<close>

theorem ExecOptions_Run_container_name_counterexample:
  "GetPodHotUpgradeInfoInAnnotations
      (exampleExecEnv (examplePod ''Running'') [''mesh'' \<mapsto> ''''] False) (examplePod ''Running'') ''mesh''
     = Some ''''
   \<and> claimedContainer (Some '''') ''mesh-1'' (Containers (PodSpecOf (examplePod ''Running''))) = Some ''''
   \<and> claimedContainer None ''mesh-1'' (Containers (PodSpecOf (examplePod ''Running''))) = Some ''mesh-1''
   \<and> map (\<lambda>c. Container (Params c)) (executeCalls (snd (snd (ExecOptions_Run
        (exampleExecEnv (examplePod ''Running'') [''mesh'' \<mapsto> ''''] False)
        (exampleExecOptions ''mesh-1'' ''mesh'' False False))))) = [''main'']"
  by (simp add: example_exec_defs claimedContainer_def ExecOptions_Run_def chooseContainer_def
        Fprintf_def defaultingMessages_def StreamOptions_SetupTTY_def execCall_def Let_def
        executeCalls_append)

text \<open>
  Claim C5. For the pod that \<^verbatim>\<open>Run\<close> has resolved: in phase Succeeded or Failed the
  result is the error \<open>cannot exec into a container in a completed pod; current phase is\<close>
  followed by the phase, nothing is written and the executor is not called. In any other
  phase the check lets the run through: validated options, a pod with a container and an
  environment that sets up the terminal and the client lead to the one call of the
  executor.
\<close>

theorem ExecOptions_Run_completed_pod:
  assumes "getPod env p0 = (p, None)" and "ExecPod p = Some pod"
  shows "(Phase pod = PodSucceeded \<or> Phase pod = PodFailed \<longrightarrow>
            ExecOptions_Run env p0 =
              (Return (Some (Error
                 (''cannot exec into a container in a completed pod; current phase is '' @ Phase pod))),
               p, [])
            \<and> executeCalls (snd (snd (ExecOptions_Run env p0))) = [])
       \<and> (Phase pod \<noteq> PodSucceeded \<and> Phase pod \<noteq> PodFailed
            \<and> ExecOptions_Validate p0 = None \<and> Containers (PodSpecOf pod) \<noteq> []
            \<and> (\<forall>t. SafeSetup env t = None) \<and> RESTClientFor env = None \<longrightarrow>
            length (executeCalls (snd (snd (ExecOptions_Run env p0)))) = 1)"
proof (intro conjI impI)
  assume "Phase pod = PodSucceeded \<or> Phase pod = PodFailed"
  with assms show r: "ExecOptions_Run env p0 =
              (Return (Some (Error
                 (''cannot exec into a container in a completed pod; current phase is '' @ Phase pod))),
               p, [])"
    by (auto simp: ExecOptions_Run_def)
  then show "executeCalls (snd (snd (ExecOptions_Run env p0))) = []"
    by simp
next
  assume a: "Phase pod \<noteq> PodSucceeded \<and> Phase pod \<noteq> PodFailed
            \<and> ExecOptions_Validate p0 = None \<and> Containers (PodSpecOf pod) \<noteq> []
            \<and> (\<forall>t. SafeSetup env t = None) \<and> RESTClientFor env = None"
  then have "containerPrecedence (GetPodHotUpgradeInfoInAnnotations env pod (SidecarSetContainer p0))
                (ContainerName p0) (Containers (PodSpecOf pod)) \<noteq> None"
    by (cases "Containers (PodSpecOf pod)")
       (auto simp: containerPrecedence_def split: option.splits)
  then obtain n where n: "containerPrecedence (GetPodHotUpgradeInfoInAnnotations env pod (SidecarSetContainer p0))
                (ContainerName p0) (Containers (PodSpecOf pod)) = Some n"
    by auto
  from a have "executeCalls (snd (snd (ExecOptions_Run env p0))) =
           [execCall (fst (snd (ExecOptions_Run env p0))) pod n (fst (StreamOptions_SetupTTY env p))
              (Raw (fst (StreamOptions_SetupTTY env p)))]"
    by (intro Run_executes_once [OF _ assms _ _ _ _ n]) simp_all
  then show "length (executeCalls (snd (snd (ExecOptions_Run env p0)))) = 1"
    by simp
qed

theorem ExecOptions_Run_completed_pod_witness:
  "ExecOptions_Run (exampleExecEnv (examplePod ''Succeeded'') Map.empty False)
       (exampleExecOptions '''' '''' False False) =
     (Return (Some (Error ''cannot exec into a container in a completed pod; current phase is Succeeded'')),
      (exampleExecOptions '''' '''' False False)\<lparr>ExecPod := Some (examplePod ''Succeeded'')\<rparr>, [])
   \<and> executeCalls (snd (snd (ExecOptions_Run (exampleExecEnv (examplePod ''Failed'') Map.empty False)
       (exampleExecOptions '''' '''' False False)))) = []
   \<and> length (executeCalls (snd (snd (ExecOptions_Run (exampleExecEnv (examplePod ''Pending'') Map.empty False)
       (exampleExecOptions '''' '''' False False))))) = 1"
  using ExecOptions_Run_completed_pod
          [of "exampleExecEnv (examplePod ''Succeeded'') Map.empty False"
              "exampleExecOptions '''' '''' False False"
              "(exampleExecOptions '''' '''' False False)\<lparr>ExecPod := Some (examplePod ''Succeeded'')\<rparr>"
              "examplePod ''Succeeded''"]
        ExecOptions_Run_completed_pod
          [of "exampleExecEnv (examplePod ''Failed'') Map.empty False"
              "exampleExecOptions '''' '''' False False"
              "(exampleExecOptions '''' '''' False False)\<lparr>ExecPod := Some (examplePod ''Failed'')\<rparr>"
              "examplePod ''Failed''"]
        ExecOptions_Run_completed_pod
          [of "exampleExecEnv (examplePod ''Pending'') Map.empty False"
              "exampleExecOptions '''' '''' False False"
              "(exampleExecOptions '''' '''' False False)\<lparr>ExecPod := Some (examplePod ''Pending'')\<rparr>"
              "examplePod ''Pending''"]
  by (simp add: example_exec_defs)

text \<open>
  Claim C8. \<^verbatim>\<open>SetupTTY\<close> returns a raw TTY exactly when stdin is requested, a TTY is
  requested and the input is a terminal; without stdin it leaves the options with a nil
  input stream and TTY off. A run that calls \<^verbatim>\<open>MonitorSize\<close>, or that ends with an error
  stream other than the one it started with, had all three; and with all three, a run that
  gets past the choice of the container calls \<^verbatim>\<open>MonitorSize\<close> once, on a raw TTY, and
  ends with the error stream nil.
\<close>

theorem SetupTTY_raw_mode:
  "Raw (fst (StreamOptions_SetupTTY env so)) = (Stdin so \<and> TTY so \<and> inputIsTerminal env so)
   \<and> (\<not> Stdin so \<longrightarrow>
        In (fst (snd (StreamOptions_SetupTTY env so))) = None
        \<and> \<not> TTY (fst (snd (StreamOptions_SetupTTY env so))))
   \<and> (monitorCalls (snd (snd (ExecOptions_Run env p0))) \<noteq> []
        \<longrightarrow> Stdin p0 \<and> TTY p0 \<and> inputIsTerminal env p0)
   \<and> (ErrOut (fst (snd (ExecOptions_Run env p0))) \<noteq> ErrOut p0
        \<longrightarrow> Stdin p0 \<and> TTY p0 \<and> inputIsTerminal env p0)
   \<and> (Stdin p0 \<and> TTY p0 \<and> inputIsTerminal env p0 \<and> ExecOptions_Validate p0 = None
        \<and> getPod env p0 = (p, None) \<and> ExecPod p = Some pod
        \<and> Phase pod \<noteq> PodSucceeded \<and> Phase pod \<noteq> PodFailed \<and> Containers (PodSpecOf pod) \<noteq> []
      \<longrightarrow> (\<exists>t. Raw t \<and> monitorCalls (snd (snd (ExecOptions_Run env p0))) = [t])
          \<and> ErrOut (fst (snd (ExecOptions_Run env p0))) = None)"
proof (intro conjI impI)
  show "Raw (fst (StreamOptions_SetupTTY env so)) = (Stdin so \<and> TTY so \<and> inputIsTerminal env so)"
    by (rule SetupTTY_Raw)
next
  assume "\<not> Stdin so"
  then show "In (fst (snd (StreamOptions_SetupTTY env so))) = None"
    and "\<not> TTY (fst (snd (StreamOptions_SetupTTY env so)))"
    by (simp_all add: SetupTTY_no_stdin)
next
  assume "monitorCalls (snd (snd (ExecOptions_Run env p0))) \<noteq> []"
  then show "Stdin p0" "TTY p0" "inputIsTerminal env p0"
    using Run_monitor_and_stderr [of env p0] by simp_all
next
  assume "ErrOut (fst (snd (ExecOptions_Run env p0))) \<noteq> ErrOut p0"
  then show "Stdin p0" "TTY p0" "inputIsTerminal env p0"
    using Run_monitor_and_stderr [of env p0] by simp_all
next
  assume a: "Stdin p0 \<and> TTY p0 \<and> inputIsTerminal env p0 \<and> ExecOptions_Validate p0 = None
        \<and> getPod env p0 = (p, None) \<and> ExecPod p = Some pod
        \<and> Phase pod \<noteq> PodSucceeded \<and> Phase pod \<noteq> PodFailed \<and> Containers (PodSpecOf pod) \<noteq> []"
  then obtain w where "ErrOut p0 = Some w"
    using Validate_streams by blast
  with a have w: "ErrOut p = Some w"
    using getPod_fields [of env p0 p None] by simp
  from a have "containerPrecedence (GetPodHotUpgradeInfoInAnnotations env pod (SidecarSetContainer p))
                (ContainerName p) (Containers (PodSpecOf pod)) \<noteq> None"
    by (cases "Containers (PodSpecOf pod)")
       (auto simp: containerPrecedence_def split: option.splits)
  with chooseContainer_valid [OF w, of env pod]
  obtain n evs where evs: "monitorCalls evs = []" "chooseContainer env p pod = Inr (n, evs)"
    by auto
  have raw: "Raw (fst (StreamOptions_SetupTTY env p))"
    using a getPod_fields [of env p0 p None] by (simp add: SetupTTY_Raw)
  have run: "monitorCalls (snd (snd (ExecOptions_Run env p0))) = [fst (StreamOptions_SetupTTY env p)]
             \<and> ErrOut (fst (snd (ExecOptions_Run env p0))) = None"
    using a raw evs(1) SetupTTY_events [of env p]
    by (simp add: Run_after_check [of env p0 p pod n evs] evs(2) Let_def monitorCalls_append
             split: option.splits)
  from run raw show "\<exists>t. Raw t \<and> monitorCalls (snd (snd (ExecOptions_Run env p0))) = [t]"
    by blast
  from run show "ErrOut (fst (snd (ExecOptions_Run env p0))) = None"
    by simp
qed

theorem SetupTTY_raw_mode_witness:
  "Raw (fst (StreamOptions_SetupTTY (exampleExecEnv (examplePod ''Running'') Map.empty True)
              (exampleExecOptions '''' '''' True True)))
   \<and> \<not> Raw (fst (StreamOptions_SetupTTY (exampleExecEnv (examplePod ''Running'') Map.empty False)
              (exampleExecOptions '''' '''' True True)))
   \<and> In (fst (snd (StreamOptions_SetupTTY (exampleExecEnv (examplePod ''Running'') Map.empty True)
              (exampleExecOptions '''' '''' False True)))) = None
   \<and> \<not> TTY (fst (snd (StreamOptions_SetupTTY (exampleExecEnv (examplePod ''Running'') Map.empty True)
              (exampleExecOptions '''' '''' False True))))
   \<and> length (monitorCalls (snd (snd (ExecOptions_Run (exampleExecEnv (examplePod ''Running'') Map.empty True)
              (exampleExecOptions '''' '''' True True))))) = 1
   \<and> ErrOut (fst (snd (ExecOptions_Run (exampleExecEnv (examplePod ''Running'') Map.empty True)
              (exampleExecOptions '''' '''' True True)))) = None
   \<and> monitorCalls (snd (snd (ExecOptions_Run (exampleExecEnv (examplePod ''Running'') Map.empty False)
              (exampleExecOptions '''' '''' True True)))) = []
   \<and> ErrOut (fst (snd (ExecOptions_Run (exampleExecEnv (examplePod ''Running'') Map.empty True)
              (exampleExecOptions '''' '''' True False)))) = Some ''stderr''"
  using SetupTTY_raw_mode
          [of "exampleExecEnv (examplePod ''Running'') Map.empty True"
              "exampleExecOptions '''' '''' True True"
              "exampleExecOptions '''' '''' True True"
              "(exampleExecOptions '''' '''' True True)\<lparr>ExecPod := Some (examplePod ''Running'')\<rparr>"
              "examplePod ''Running''"]
        SetupTTY_raw_mode
          [of "exampleExecEnv (examplePod ''Running'') Map.empty False"
              "exampleExecOptions '''' '''' True True"
              "exampleExecOptions '''' '''' True True"
              "(exampleExecOptions '''' '''' True True)\<lparr>ExecPod := Some (examplePod ''Running'')\<rparr>"
              "examplePod ''Running''"]
        SetupTTY_raw_mode
          [of "exampleExecEnv (examplePod ''Running'') Map.empty True"
              "exampleExecOptions '''' '''' False True"
              "exampleExecOptions '''' '''' True False"
              "(exampleExecOptions '''' '''' True False)\<lparr>ExecPod := Some (examplePod ''Running'')\<rparr>"
              "examplePod ''Running''"]
  by (auto simp add: example_exec_defs inputIsTerminal_def)

end
